theory Spec2Isabelle
  imports Main "HOL-Library.Word"
begin

section \<open>Strings\<close>

text \<open>
  A JavaScript string is modelled as a \<open>string\<close>, one \<open>char\<close> per code unit. The
  module only compares, slices and concatenates strings and replaces the backslash by
  the slash, so the width of a code unit plays no role.
\<close>

definition backslash :: char where
  "backslash = CHR 0x5C"

text \<open>\<^verbatim>\<open>s.startsWith(p)\<close>, \<^verbatim>\<open>s.endsWith(p)\<close>, \<^verbatim>\<open>s.slice(n)\<close> for \<open>n \<ge> 0\<close>,
  and \<^verbatim>\<open>s.replace(/\\/g, "/")\<close>.\<close>

definition startsWith :: "string \<Rightarrow> string \<Rightarrow> bool" where
  "startsWith s p = (take (length p) s = p)"

definition endsWith :: "string \<Rightarrow> string \<Rightarrow> bool" where
  "endsWith s p = (length p \<le> length s \<and> drop (length s - length p) s = p)"

definition slice :: "nat \<Rightarrow> string \<Rightarrow> string" where
  "slice n s = drop n s"

definition replaceBackslashes :: "string \<Rightarrow> string" where
  "replaceBackslashes s = map (\<lambda>c. if c = backslash then CHR ''/'' else c) s"

section \<open>The path mapping of \<^verbatim>\<open>shimFs\<close>\<close>

text \<open>
  What the closures of \<^verbatim>\<open>shimFs\<close> read from their surroundings and never change:
  \<^verbatim>\<open>projectRoot = dirname(process.argv[0])\<close>, the platform's \<^verbatim>\<open>path.relative\<close>,
  \<^verbatim>\<open>path.isAbsolute\<close> and \<^verbatim>\<open>path.posix.join\<close>, and \<^verbatim>\<open>constants.ENOENT\<close>. They belong
  to the host runtime, not to this module, and stay parameters.
\<close>

record config =
  projectRoot :: string
  relative :: "string \<Rightarrow> string \<Rightarrow> string"
  isAbsolute :: "string \<Rightarrow> bool"
  posix_join :: "string list \<Rightarrow> string"
  ENOENT :: int

text \<open>\<^verbatim>\<open>const drive = projectRoot.slice(0, 2)\<close>\<close>

definition drive :: "'a config_scheme \<Rightarrow> string" where
  "drive cfg = take 2 (projectRoot cfg)"

text \<open>
  \<^verbatim>\<open>toSnapshotPath\<close>. The second branch tests for \<^verbatim>\<open>drive + "\\snapshot\\"\<close>, which is
  \<open>length drive + 10\<close> code units long, and drops \<^verbatim>\<open>drive.length + 9\<close> of them.
\<close>

definition toSnapshotPath :: "'a config_scheme \<Rightarrow> string \<Rightarrow> string" where
  "toSnapshotPath cfg filePath =
     (if startsWith filePath ''/snapshot/'' then filePath
      else if startsWith filePath (drive cfg @ [backslash] @ ''snapshot'' @ [backslash]) then
        ''/snapshot/'' @ replaceBackslashes (slice (length (drive cfg) + 9) filePath)
      else if startsWith filePath (projectRoot cfg) then
        ''/snapshot/'' @ replaceBackslashes (relative cfg (projectRoot cfg) filePath)
      else filePath)"

text \<open>
  Both hooks that take a path strip the extended-length prefix \<^verbatim>\<open>\\?\\<close> before they
  call \<^verbatim>\<open>toSnapshotPath\<close>:
  \<^verbatim>\<open>if (p.startsWith("\\\\?\\")) p = p.slice(4)\<close>.
\<close>

definition extendedPrefix :: string where
  "extendedPrefix = [backslash, backslash, CHR ''?'', backslash]"

definition stripExtendedPrefix :: "string \<Rightarrow> string" where
  "stripExtendedPrefix p = (if startsWith p extendedPrefix then slice 4 p else p)"

text \<open>
  The translation that a hook applies to the path it is given, the path normaliser of
  the specification: the prefix is stripped and \<^verbatim>\<open>toSnapshotPath\<close> is called on the rest
  (lines 111 to 114 and 162 to 166).
\<close>

definition toVirtual :: "'a config_scheme \<Rightarrow> string \<Rightarrow> string" where
  "toVirtual cfg p = toSnapshotPath cfg (stripExtendedPrefix p)"

section \<open>JavaScript values\<close>

text \<open>
  The values the hooks receive as arguments and the values \<^verbatim>\<open>JSON.parse\<close> returns. A
  number is an integer here: the module only asks for the type of a number and whether
  it is zero, and hands it on. The list of a \<open>JObj\<close> holds the object's own properties
  in the order of \<^verbatim>\<open>Object.keys\<close>, each key once; for keys that are not array indices
  that is the order of insertion.
\<close>

datatype jsval =
    JUndefined
  | JNull
  | JBool bool
  | JNum int
  | JStr string
  | JArr "jsval list"
  | JObj "(string \<times> jsval) list"

datatype error = TypeError | SyntaxError | AssertionError | HostError nat

datatype stat_kind = IsFile | IsDirectory | IsOther

text \<open>\<^verbatim>\<open>if (v)\<close>, \<^verbatim>\<open>typeof v === "string"\<close>, and \<^verbatim>\<open>v && typeof v === "object"\<close>.\<close>

definition truthy :: "jsval \<Rightarrow> bool" where
  "truthy v =
     (case v of JUndefined \<Rightarrow> False | JNull \<Rightarrow> False | JBool b \<Rightarrow> b | JNum n \<Rightarrow> n \<noteq> 0
      | JStr s \<Rightarrow> s \<noteq> [] | JArr xs \<Rightarrow> True | JObj kvs \<Rightarrow> True)"

definition asString :: "jsval \<Rightarrow> string option" where
  "asString v = (case v of JStr s \<Rightarrow> Some s | _ \<Rightarrow> None)"

definition isObject :: "jsval \<Rightarrow> bool" where
  "isObject v = (case v of JArr xs \<Rightarrow> True | JObj kvs \<Rightarrow> True | _ \<Rightarrow> False)"

text \<open>\<^verbatim>\<open>args[i]\<close> of a rest parameter: \<^verbatim>\<open>undefined\<close> past the end.\<close>

definition arg :: "jsval list \<Rightarrow> nat \<Rightarrow> jsval" where
  "arg args i = (if i < length args then args ! i else JUndefined)"

text \<open>
  \<^verbatim>\<open>v.k\<close> and \<^verbatim>\<open>v[k]\<close> for the keys the module reads (\<^verbatim>\<open>exports\<close>, \<^verbatim>\<open>main\<close>, \<^verbatim>\<open>"."\<close>), none
  of which a prototype defines: reading a property of \<^verbatim>\<open>null\<close> or \<^verbatim>\<open>undefined\<close> throws a
  TypeError, an object gives its own property, and every other value gives
  \<^verbatim>\<open>undefined\<close>.
\<close>

definition getProp :: "jsval \<Rightarrow> string \<Rightarrow> error + jsval" where
  "getProp v k =
     (case v of
        JUndefined \<Rightarrow> Inl TypeError
      | JNull \<Rightarrow> Inl TypeError
      | JObj kvs \<Rightarrow> (case map_of kvs k of Some x \<Rightarrow> Inr x | None \<Rightarrow> Inr JUndefined)
      | _ \<Rightarrow> Inr JUndefined)"

text \<open>The key of an array element: its index in decimal.\<close>

fun decimal :: "nat \<Rightarrow> string" where
  "decimal n =
     (if n < 10 then [char_of (48 + n)]
      else decimal (n div 10) @ [char_of (48 + n mod 10)])"

section \<open>The exports resolver\<close>

text \<open>
  \<^verbatim>\<open>resolveExportsObject\<close>. The loop over \<^verbatim>\<open>Object.keys(obj)\<close> is \<open>resolveKeys\<close> for an
  object and \<open>resolveIndices\<close> for an array (whose keys are its indices); the branch
  after the loop, taken when \<^verbatim>\<open>conditions\<close> does not hold \<^verbatim>\<open>"default"\<close>, is
  \<open>resolveDefault\<close>. \<open>None\<close> is \<^verbatim>\<open>null\<close>. A key of the condition set whose value is an
  object that resolves to nothing (or to the empty string) does not end the loop.
\<close>

fun resolveExportsObject :: "string list \<Rightarrow> jsval \<Rightarrow> string option"
  and resolveKeys :: "string list \<Rightarrow> (string \<times> jsval) list \<Rightarrow> string option"
  and resolveIndices :: "string list \<Rightarrow> nat \<Rightarrow> jsval list \<Rightarrow> string option"
  and resolveDefault :: "string list \<Rightarrow> (string \<times> jsval) list \<Rightarrow> string option"
where
  "resolveExportsObject conditions (JStr s) = Some s"
| "resolveExportsObject conditions (JObj kvs) =
     (case resolveKeys conditions kvs of
        Some t \<Rightarrow> Some t
      | None \<Rightarrow>
          if ''default'' \<notin> set conditions then resolveDefault conditions kvs else None)"
| "resolveExportsObject conditions (JArr xs) = resolveIndices conditions 0 xs"
| "resolveExportsObject conditions JUndefined = None"
| "resolveExportsObject conditions JNull = None"
| "resolveExportsObject conditions (JBool b) = None"
| "resolveExportsObject conditions (JNum n) = None"
| "resolveKeys conditions [] = None"
| "resolveKeys conditions ((key, v) # rest) =
     (if key \<in> set conditions then
        (case asString v of
           Some s \<Rightarrow> Some s
         | None \<Rightarrow>
             (case (if isObject v then resolveExportsObject conditions v else None) of
                Some nested \<Rightarrow>
                  if nested \<noteq> [] then Some nested else resolveKeys conditions rest
              | None \<Rightarrow> resolveKeys conditions rest))
      else resolveKeys conditions rest)"
| "resolveIndices conditions i [] = None"
| "resolveIndices conditions i (v # rest) =
     (if decimal i \<in> set conditions then
        (case asString v of
           Some s \<Rightarrow> Some s
         | None \<Rightarrow>
             (case (if isObject v then resolveExportsObject conditions v else None) of
                Some nested \<Rightarrow>
                  if nested \<noteq> [] then Some nested else resolveIndices conditions (Suc i) rest
              | None \<Rightarrow> resolveIndices conditions (Suc i) rest))
      else resolveIndices conditions (Suc i) rest)"
| "resolveDefault conditions [] = None"
| "resolveDefault conditions ((key, v) # rest) =
     (if key = ''default'' then
        (case asString v of
           Some s \<Rightarrow> if s \<noteq> [] then Some s else None
         | None \<Rightarrow> if isObject v then resolveExportsObject conditions v else None)
      else resolveDefault conditions rest)"

text \<open>
  \<^verbatim>\<open>resolvePackageExports\<close>: \<^verbatim>\<open>exports["."] ?? exports\<close> takes the value under \<^verbatim>\<open>"."\<close>
  unless it is \<^verbatim>\<open>null\<close> or \<^verbatim>\<open>undefined\<close>.
\<close>

definition resolvePackageExports :: "jsval \<Rightarrow> string list \<Rightarrow> string option" where
  "resolvePackageExports exports conditions =
     (case asString exports of
        Some s \<Rightarrow> Some s
      | None \<Rightarrow>
          if \<not> isObject exports then None
          else
            (case getProp exports ''.'' of
               Inr JUndefined \<Rightarrow> resolveExportsObject conditions exports
             | Inr JNull \<Rightarrow> resolveExportsObject conditions exports
             | Inr subExports \<Rightarrow> resolveExportsObject conditions subExports
             | Inl e \<Rightarrow> None))"

section \<open>The hooks\<close>

text \<open>
  What a hook reaches when it runs: the \<^verbatim>\<open>fs\<close> object that \<^verbatim>\<open>shimFs\<close> was given and has
  patched (\<^verbatim>\<open>fs.statSync(p)\<close>, \<^verbatim>\<open>fs.readFileSync(p, "utf-8")\<close>), and the table of saved
  originals (\<^verbatim>\<open>originalFsMethods.fstatSync(fd)\<close>). \<open>Inl\<close> is an exception thrown by the
  call. Writing to the debug log is left out.
\<close>

record env = config +
  fs_statSync :: "string \<Rightarrow> error + stat_kind"
  fs_readFileSync :: "string \<Rightarrow> error + string"
  orig_fstatSync :: "int \<Rightarrow> error + unit"
  JSON_parse :: "string \<Rightarrow> error + jsval"



text \<open>
  \<^verbatim>\<open>internalModuleStat\<close>; \<open>original\<close> is the function the caller passes first.
\<close>

definition internalModuleStat ::
  "env \<Rightarrow> (jsval list \<Rightarrow> error + jsval) \<Rightarrow> jsval list \<Rightarrow> error + jsval" where
  "internalModuleStat e original args =
     (case arg args 0 of
        JNum target \<Rightarrow>
          (case orig_fstatSync e target of
             Inr u \<Rightarrow> Inr (JNum 0)
           | Inl err \<Rightarrow> Inr (JNum (- ENOENT e)))
      | target \<Rightarrow>
          (case (case target of JStr s \<Rightarrow> JStr s | _ \<Rightarrow> arg args 1) of
             JStr statPath \<Rightarrow>
               (case fs_statSync e (toSnapshotPath e (stripExtendedPrefix statPath)) of
                  Inr st \<Rightarrow> Inr (JNum (if st = IsDirectory then 1 else 0))
                | Inl err \<Rightarrow> Inr (JNum (- ENOENT e)))
           | other \<Rightarrow> original args))"

section \<open>The module resolver hook\<close>

definition basePath :: string where
  "basePath = ''/snapshot/node_modules''"

definition exportConditions :: "string list" where
  "exportConditions = [''require'', ''node'', ''default'']"

text \<open>\<^verbatim>\<open>isFile\<close>: a \<^verbatim>\<open>statSync\<close> that throws counts as no file.\<close>

definition isFile :: "env \<Rightarrow> string \<Rightarrow> bool" where
  "isFile e p = (case fs_statSync e p of Inr st \<Rightarrow> st = IsFile | Inl err \<Rightarrow> False)"

text \<open>
  \<^verbatim>\<open>for (const ext of [".js", ".json", ".node"]) { if (isFile(c + ext)) return c + ext; }\<close>
\<close>

fun tryExtensions :: "env \<Rightarrow> string \<Rightarrow> string list \<Rightarrow> string option" where
  "tryExtensions e candidate [] = None"
| "tryExtensions e candidate (ext # exts) =
     (if isFile e (candidate @ ext) then Some (candidate @ ext)
      else tryExtensions e candidate exts)"

text \<open>
  Step 1 of \<^verbatim>\<open>nexeFindPath\<close>, from \<^verbatim>\<open>if (pkg.exports)\<close> on; \<open>Some p\<close> is \<^verbatim>\<open>return p\<close>, \<open>None\<close>
  goes on to the \<^verbatim>\<open>main\<close> field.
\<close>

definition exportsStep :: "env \<Rightarrow> string \<Rightarrow> jsval \<Rightarrow> string option" where
  "exportsStep e request exports =
     (if truthy exports then
        (case resolvePackageExports exports exportConditions of
           Some exportTarget \<Rightarrow>
             if exportTarget \<noteq> [] then
               (let candidate = posix_join e [basePath, request, exportTarget]
                in if isFile e candidate then Some candidate
                   else tryExtensions e candidate [''.js'', ''.json'', ''.node''])
             else None
         | None \<Rightarrow> None)
      else None)"

text \<open>The \<^verbatim>\<open>main\<close> field and its normalisation; the argument is \<^verbatim>\<open>pkg.main\<close>.\<close>

definition normalizeMain :: "jsval \<Rightarrow> string" where
  "normalizeMain pkgMain =
     (let main0 = (case pkgMain of JStr m \<Rightarrow> m | _ \<Rightarrow> ''index.js'');
          main1 = (if startsWith main0 ''./'' then slice 2 main0 else main0);
          main2 = (if main1 = [] \<or> main1 = ''.'' then ''index.js'' else main1)
      in if endsWith main2 ''/'' then main2 @ ''index.js'' else main2)"

text \<open>Steps 2 to 5 of \<^verbatim>\<open>nexeFindPath\<close>; \<open>None\<close> is the final \<^verbatim>\<open>return result\<close>.\<close>

definition mainStep :: "env \<Rightarrow> string \<Rightarrow> jsval \<Rightarrow> string option" where
  "mainStep e request pkgMain =
     (let mainPath = posix_join e [basePath, request, normalizeMain pkgMain];
          detailed =
            (case fs_statSync e mainPath of
               Inr IsFile \<Rightarrow> Some mainPath
             | Inr IsDirectory \<Rightarrow>
                 (let idxPath = posix_join e [mainPath, ''index.js'']
                  in if isFile e idxPath then Some idxPath else None)
             | Inr IsOther \<Rightarrow> None
             | Inl err \<Rightarrow> None)
      in case detailed of
           Some p \<Rightarrow> Some p
         | None \<Rightarrow>
             (case tryExtensions e mainPath [''.js'', ''.json'', ''.node''] of
                Some p \<Rightarrow> Some p
              | None \<Rightarrow>
                  (let fallbackIndex = posix_join e [basePath, request, ''index.js'']
                   in if isFile e fallbackIndex then Some fallbackIndex
                      else
                        (let distIndex = posix_join e [basePath, request, ''dist'', ''index.js'']
                         in if isFile e distIndex then Some distIndex
                            else
                              (let distMain =
                                     posix_join e [basePath, request, ''dist'', request @ ''.js'']
                               in if isFile e distMain then Some distMain else None)))))"

text \<open>
  \<^verbatim>\<open>request[0] === "."\<close> for a request that is not a string (the parameter is declared a
  string): the first element of an array, the property \<^verbatim>\<open>"0"\<close> of an object.
\<close>

definition firstIsDot :: "jsval \<Rightarrow> bool" where
  "firstIsDot v =
     (case v of
        JStr s \<Rightarrow> startsWith s ''.''
      | JArr xs \<Rightarrow> (case xs of [] \<Rightarrow> False | x # rest \<Rightarrow> x = JStr ''.'')
      | JObj kvs \<Rightarrow> map_of kvs ''0'' = Some (JStr ''.'')
      | _ \<Rightarrow> False)"

text \<open>
  \<^verbatim>\<open>nexeFindPath\<close>, the replacement of \<^verbatim>\<open>Module._findPath\<close>. \<open>Inl\<close> is an exception that
  leaves the function. \<open>originalResult\<close> is the \<^verbatim>\<open>result\<close> of the first \<^verbatim>\<open>try\<close>: what the original
  returned, or \<^verbatim>\<open>false\<close> when it threw. \<^verbatim>\<open>pkg.exports\<close> and \<^verbatim>\<open>pkg.main\<close> are read outside every \<^verbatim>\<open>try\<close>;
  \<^verbatim>\<open>path.isAbsolute\<close> throws a TypeError on a value that is not a string.
\<close>

definition originalResult :: "(jsval list \<Rightarrow> error + jsval) \<Rightarrow> jsval list \<Rightarrow> jsval" where
  "originalResult capturedOrigFindPath args =
     (case capturedOrigFindPath args of Inr r \<Rightarrow> r | Inl err \<Rightarrow> JBool False)"

definition nexeFindPath ::
  "env \<Rightarrow> (jsval list \<Rightarrow> error + jsval) \<Rightarrow> jsval list \<Rightarrow> error + jsval" where
  "nexeFindPath e capturedOrigFindPath args =
     (let result = originalResult capturedOrigFindPath args
      in if truthy result then Inr result
         else
           (case arg args 0 of
              JStr request \<Rightarrow>
                if request = [] \<or> startsWith request ''.'' \<or> isAbsolute e request
                then Inr result
                else
                  (case fs_readFileSync e (posix_join e [basePath, request, ''package.json'']) of
                     Inl err \<Rightarrow> Inr result
                   | Inr text \<Rightarrow>
                       (case JSON_parse e text of
                          Inl err \<Rightarrow> Inr result
                        | Inr pkg \<Rightarrow>
                            (case getProp pkg ''exports'' of
                               Inl err \<Rightarrow> Inl err
                             | Inr exports \<Rightarrow>
                                 (case exportsStep e request exports of
                                    Some p \<Rightarrow> Inr (JStr p)
                                  | None \<Rightarrow>
                                      (case getProp pkg ''main'' of
                                         Inl err \<Rightarrow> Inl err
                                       | Inr pkgMain \<Rightarrow>
                                           (case mainStep e request pkgMain of
                                              Some p \<Rightarrow> Inr (JStr p)
                                            | None \<Rightarrow> Inr result))))))
            | request \<Rightarrow>
                if truthy request \<and> \<not> firstIsDot request then Inl TypeError
                else Inr result))"

section \<open>Installing and restoring\<close>

text \<open>
  Functions are compared by identity when they are saved and put back, so the value of
  a property is a name: a function of the host runtime, another value of the host
  runtime (a constant such as \<^verbatim>\<open>fs.F_OK\<close>), or one of the closures that \<^verbatim>\<open>shimFs\<close> creates.
  \<^verbatim>\<open>nexeFindPath\<close> keeps the function it wraps.
\<close>

datatype fn =
    HostFn nat
  | HostValue nat
  | ReadFileHook
  | ReadJSONHook
  | StatHook
  | FindPathHook fn

type_synonym byte = "8 word"

text \<open>
  What calling a function of the host does, and \<^verbatim>\<open>JSON.parse\<close>. \<open>call_readSync f fd n pos\<close>
  is \<^verbatim>\<open>f(fd, buffer, 0, n, pos)\<close> and gives the bytes it put into the buffer, whose
  number it returns. \<open>mountSnapshot blob realFs root\<close> stands for building the archive
  file system over the blob (\<^verbatim>\<open>ZipFS\<close>, \<^verbatim>\<open>SnapshotZipFS\<close>, \<^verbatim>\<open>PosixFS\<close>) and for
  \<^verbatim>\<open>patchFs(fs, ...)\<close>: it gives the properties of \<^verbatim>\<open>fs\<close> afterwards, or the exception of
  a constructor.
\<close>

record host =
  call_openSync :: "fn \<Rightarrow> string \<Rightarrow> error + nat"
  call_readSync :: "fn \<Rightarrow> nat \<Rightarrow> nat \<Rightarrow> nat \<Rightarrow> error + byte list"
  call_fstatSync :: "fn \<Rightarrow> int \<Rightarrow> error + unit"
  call_statSync :: "fn \<Rightarrow> string \<Rightarrow> error + stat_kind"
  call_readFileSync :: "fn \<Rightarrow> string \<Rightarrow> error + string"
  mountSnapshot :: "byte list \<Rightarrow> (string \<rightharpoonup> fn) \<Rightarrow> string \<Rightarrow> error + (string \<rightharpoonup> fn)"
  parse :: "string \<Rightarrow> error + jsval"

text \<open>\<^verbatim>\<open>NexeHeader\<close>, with the fields of \<^verbatim>\<open>layout\<close> beside \<^verbatim>\<open>blobPath\<close>.\<close>

record NexeHeader =
  blobPath :: string
  resourceStart :: nat
  resourceSize :: nat
  contentSize :: nat
  contentStart :: nat

text \<open>
  The mutable state: the \<^verbatim>\<open>fs\<close> object, the module's variables \<^verbatim>\<open>originalFsMethods\<close>
  (\<open>None\<close> is \<^verbatim>\<open>null\<close>), \<^verbatim>\<open>patches\<close>, \<^verbatim>\<open>originalPatches\<close> and \<^verbatim>\<open>lazyRestoreFs\<close>, and
  \<^verbatim>\<open>Module._findPath\<close> (\<open>None\<close> when it is not a function). \<^verbatim>\<open>lazyRestoreFs\<close> is \<open>None\<close>
  while it is \<^verbatim>\<open>() => {}\<close>, and otherwise holds the \<^verbatim>\<open>_origFindPath\<close> of the restoring
  closure.
\<close>

record shim_state =
  fs :: "string \<rightharpoonup> fn"
  originalFsMethods :: "(string \<rightharpoonup> fn) option"
  patches :: "string \<rightharpoonup> fn"
  originalPatches :: "string \<rightharpoonup> fn"
  Module_findPath :: "fn option"
  lazyRestoreFs :: "fn option option"

text \<open>
  The state when the module has been loaded and \<^verbatim>\<open>shimFs\<close> has not run:
  \<^verbatim>\<open>originalFsMethods = null\<close>, \<^verbatim>\<open>lazyRestoreFs = () => {}\<close>,
  \<^verbatim>\<open>originalPatches = { ...patches }\<close>.
\<close>

definition moduleLoaded :: "shim_state \<Rightarrow> bool" where
  "moduleLoaded s =
     (originalFsMethods s = None \<and> lazyRestoreFs s = None \<and> originalPatches s = patches s)"

text \<open>
  Lines 34 to 43 of \<^verbatim>\<open>shimFs\<close>: open the blob and read it through \<^verbatim>\<open>realFs\<close>, then
  \<^verbatim>\<open>assert.equal(bytesRead, binary.layout.resourceSize)\<close>. Calling a property that is
  missing throws a TypeError.
\<close>

definition readBlob :: "host \<Rightarrow> (string \<rightharpoonup> fn) \<Rightarrow> NexeHeader \<Rightarrow> error + byte list" where
  "readBlob h realFs binary =
     (case realFs ''openSync'' of
        None \<Rightarrow> Inl TypeError
      | Some openf \<Rightarrow>
          (case call_openSync h openf (blobPath binary) of
             Inl err \<Rightarrow> Inl err
           | Inr blobFd \<Rightarrow>
               (case realFs ''readSync'' of
                  None \<Rightarrow> Inl TypeError
                | Some readf \<Rightarrow>
                    (case call_readSync h readf blobFd (resourceSize binary)
                            (resourceStart binary) of
                       Inl err \<Rightarrow> Inl err
                     | Inr blob \<Rightarrow>
                         if length blob = resourceSize binary then Inr blob
                         else Inl AssertionError))))"

text \<open>
  \<^verbatim>\<open>shimFs\<close>. The result is the exception that left it, if any, and the state it left.
\<close>

definition shimFs ::
  "host \<Rightarrow> 'a config_scheme \<Rightarrow> NexeHeader \<Rightarrow> shim_state \<Rightarrow> error option \<times> shim_state" where
  "shimFs h cfg binary s =
     (if originalFsMethods s \<noteq> None then (None, s)
      else
        (let s1 = s\<lparr>originalFsMethods := Some (fs s)\<rparr>;
             realFs = fs s
         in case readBlob h realFs binary of
              Inl err \<Rightarrow> (Some err, s1)
            | Inr blob \<Rightarrow>
                (case mountSnapshot h blob realFs (projectRoot cfg) of
                   Inl err \<Rightarrow> (Some err, s1)
                 | Inr patched \<Rightarrow>
                     (let s2 = s1\<lparr>fs := patched,
                                  patches := (patches s1)
                                    (''internalModuleReadFile'' \<mapsto> ReadFileHook,
                                     ''internalModuleReadJSON'' \<mapsto> ReadJSONHook,
                                     ''internalModuleStat'' \<mapsto> StatHook)\<rparr>;
                          origFindPath = Module_findPath s2;
                          s3 = (case origFindPath of
                                  Some f \<Rightarrow> s2\<lparr>Module_findPath := Some (FindPathHook f)\<rparr>
                                | None \<Rightarrow> s2)
                      in (None, s3\<lparr>lazyRestoreFs := Some origFindPath\<rparr>)))))"

text \<open>
  \<^verbatim>\<open>restoreFs\<close> calls \<^verbatim>\<open>lazyRestoreFs\<close>. \<^verbatim>\<open>Object.assign(target, source)\<close> takes the own
  enumerable keys of the source in order and assigns each to the target as
  \<^verbatim>\<open>target[key] = source[key]\<close> does in strict mode: on a key that the target holds as a
  read-only property, or through a getter without a setter, it throws a TypeError and
  the assignments made so far stay; it removes no key; a \<^verbatim>\<open>null\<close> source is skipped.

  What this needs to know of the \<^verbatim>\<open>fs\<close> object is its shape: the order of the keys that
  \<^verbatim>\<open>Object.assign({}, fs)\<close> copied, and which keys of \<^verbatim>\<open>fs\<close> reject assignment (in Node's own
  \<^verbatim>\<open>fs\<close>: \<^verbatim>\<open>F_OK\<close>, \<^verbatim>\<open>R_OK\<close>, \<^verbatim>\<open>W_OK\<close>, \<^verbatim>\<open>X_OK\<close> and \<^verbatim>\<open>promises\<close>).
\<close>

record fs_shape =
  keyOrder :: "string list"
  readOnly :: "string \<Rightarrow> bool"

fun assignKeys ::
  "(string \<Rightarrow> bool) \<Rightarrow> string list \<Rightarrow> (string \<rightharpoonup> fn) \<Rightarrow> (string \<rightharpoonup> fn)
     \<Rightarrow> error option \<times> (string \<rightharpoonup> fn)" where
  "assignKeys rejects [] source target = (None, target)"
| "assignKeys rejects (key # keys) source target =
     (case source key of
        None \<Rightarrow> assignKeys rejects keys source target
      | Some v \<Rightarrow>
          if rejects key \<and> target key \<noteq> None then (Some TypeError, target)
          else assignKeys rejects keys source (target(key \<mapsto> v)))"

definition objectAssign ::
  "fs_shape \<Rightarrow> (string \<rightharpoonup> fn) \<Rightarrow> (string \<rightharpoonup> fn) option \<Rightarrow> error option \<times> (string \<rightharpoonup> fn)" where
  "objectAssign shape target source =
     (case source of
        None \<Rightarrow> (None, target)
      | Some src \<Rightarrow> assignKeys (readOnly shape) (keyOrder shape) src target)"

text \<open>
  The closure that \<^verbatim>\<open>shimFs\<close> leaves in \<^verbatim>\<open>lazyRestoreFs\<close>. The result is the exception that
  left it, if any, and the state it left: when \<^verbatim>\<open>Object.assign(fs, originalFsMethods)\<close>
  throws, the statements after it do not run. \<^verbatim>\<open>patches\<close> is taken to be a plain object,
  all of whose properties can be assigned, so \<^verbatim>\<open>Object.assign(patches, originalPatches)\<close>
  is the override of one table by the other.
\<close>

definition restoreFs :: "fs_shape \<Rightarrow> shim_state \<Rightarrow> error option \<times> shim_state" where
  "restoreFs shape s =
     (case lazyRestoreFs s of
        None \<Rightarrow> (None, s)
      | Some origFindPath \<Rightarrow>
          (case objectAssign shape (fs s) (originalFsMethods s) of
             (Some err, assigned) \<Rightarrow> (Some err, s\<lparr>fs := assigned\<rparr>)
           | (None, assigned) \<Rightarrow>
               (None,
                s\<lparr>fs := assigned,
                  patches := patches s ++ originalPatches s,
                  Module_findPath :=
                    (case origFindPath of Some f \<Rightarrow> Some f | None \<Rightarrow> Module_findPath s),
                  lazyRestoreFs := None\<rparr>)))"

text \<open>
  What the hooks reach in a state: \<^verbatim>\<open>fs.statSync\<close> and \<^verbatim>\<open>fs.readFileSync\<close> are looked up in
  the \<^verbatim>\<open>fs\<close> object of that moment, \<^verbatim>\<open>fstatSync\<close> in \<^verbatim>\<open>originalFsMethods\<close>.
\<close>

definition callMethod ::
  "(string \<rightharpoonup> fn) option \<Rightarrow> string \<Rightarrow> (fn \<Rightarrow> 'a \<Rightarrow> error + 'b) \<Rightarrow> 'a \<Rightarrow> error + 'b" where
  "callMethod object name call x =
     (case object of
        None \<Rightarrow> Inl TypeError
      | Some table \<Rightarrow> (case table name of None \<Rightarrow> Inl TypeError | Some f \<Rightarrow> call f x))"

definition hookEnv :: "host \<Rightarrow> 'a config_scheme \<Rightarrow> shim_state \<Rightarrow> env" where
  "hookEnv h cfg s =
     \<lparr>projectRoot = projectRoot cfg, relative = relative cfg, isAbsolute = isAbsolute cfg,
      posix_join = posix_join cfg, ENOENT = ENOENT cfg,
      fs_statSync = callMethod (Some (fs s)) ''statSync'' (call_statSync h),
      fs_readFileSync = callMethod (Some (fs s)) ''readFileSync'' (call_readFileSync h),
      orig_fstatSync = callMethod (originalFsMethods s) ''fstatSync'' (call_fstatSync h),
      JSON_parse = parse h\<rparr>"

section \<open>The behaviour the specification describes\<close>

text \<open>
  The argument of the stat hook that is taken as the path: the first argument when it is
  a string, the second when the first is neither a string nor a number and the second
  is a string.
\<close>

definition isNumber :: "jsval \<Rightarrow> bool" where
  "isNumber v = (case v of JNum n \<Rightarrow> True | _ \<Rightarrow> False)"

definition spec_statPath :: "jsval list \<Rightarrow> string option" where
  "spec_statPath args =
     (case asString (arg args 0) of
        Some p \<Rightarrow> Some p
      | None \<Rightarrow> if isNumber (arg args 0) then None else asString (arg args 1))"

text \<open>
  The resolution of \<^verbatim>\<open>exports\<close> as the specification words it: a string is the target; in
  an object the first key, in order, that is in the condition set selects its value,
  and the resolution goes on in that value; a top-level \<^verbatim>\<open>"."\<close> key is unwrapped first.
\<close>

fun spec_resolveTarget :: "string list \<Rightarrow> jsval \<Rightarrow> string option"
  and spec_firstPresent :: "string list \<Rightarrow> (string \<times> jsval) list \<Rightarrow> string option"
where
  "spec_resolveTarget conditions (JStr s) = Some s"
| "spec_resolveTarget conditions (JObj kvs) = spec_firstPresent conditions kvs"
| "spec_resolveTarget conditions JUndefined = None"
| "spec_resolveTarget conditions JNull = None"
| "spec_resolveTarget conditions (JBool b) = None"
| "spec_resolveTarget conditions (JNum n) = None"
| "spec_resolveTarget conditions (JArr xs) = None"
| "spec_firstPresent conditions [] = None"
| "spec_firstPresent conditions ((key, v) # rest) =
     (if key \<in> set conditions then spec_resolveTarget conditions v
      else spec_firstPresent conditions rest)"

definition spec_resolveExports :: "string list \<Rightarrow> jsval \<Rightarrow> string option" where
  "spec_resolveExports conditions exports =
     (case exports of
        JObj kvs \<Rightarrow>
          (case map_of kvs ''.'' of
             Some sub \<Rightarrow> spec_resolveTarget conditions sub
           | None \<Rightarrow> spec_resolveTarget conditions exports)
      | _ \<Rightarrow> spec_resolveTarget conditions exports)"

text \<open>
  The path normaliser \<^verbatim>\<open>toVirtual\<close> of the specification, step by step: strip the
  extended-length prefix; a path that begins with \<^verbatim>\<open>/snapshot/\<close> stays; one that begins with
  \<^verbatim>\<open><drive>\snapshot\\<close> becomes \<^verbatim>\<open>/snapshot/\<close> and the remainder; one that begins with the
  project root has that prefix replaced by \<^verbatim>\<open>/snapshot\<close>; separators become slashes; any
  other path stays. \<open>windows\<close> says whether the host is a Windows host, where the drive
  letter, the first character, is compared without regard to case.
\<close>

definition spec_stripPrefix :: "string \<Rightarrow> string" where
  "spec_stripPrefix p =
     (if take 4 p = [backslash, backslash, CHR ''?'', backslash] then drop 4 p else p)"

definition spec_lower :: "char \<Rightarrow> char" where
  "spec_lower c =
     (let n = (of_char c :: nat) in if 65 \<le> n \<and> n \<le> 90 then char_of (n + 32) else c)"

definition spec_beginsWith :: "bool \<Rightarrow> string \<Rightarrow> string \<Rightarrow> bool" where
  "spec_beginsWith windows q pre =
     (let h = take (length pre) q
      in length h = length pre
         \<and> (if windows then map spec_lower (take 1 h) = map spec_lower (take 1 pre)
             else take 1 h = take 1 pre)
         \<and> drop 1 h = drop 1 pre)"

definition spec_slashes :: "string \<Rightarrow> string" where
  "spec_slashes s = map (\<lambda>c. if c = backslash then CHR ''/'' else c) s"

definition spec_driveSnapshot :: "'a config_scheme \<Rightarrow> string" where
  "spec_driveSnapshot cfg = take 2 (projectRoot cfg) @ [backslash] @ ''snapshot'' @ [backslash]"

definition spec_toVirtual :: "bool \<Rightarrow> 'a config_scheme \<Rightarrow> string \<Rightarrow> string" where
  "spec_toVirtual windows cfg p =
     (let q = spec_stripPrefix p
      in if take 10 q = ''/snapshot/'' then q
         else if spec_beginsWith windows q (spec_driveSnapshot cfg)
         then ''/snapshot/'' @ spec_slashes (drop (length (spec_driveSnapshot cfg)) q)
         else if spec_beginsWith windows q (projectRoot cfg)
         then ''/snapshot'' @ spec_slashes (drop (length (projectRoot cfg)) q)
         else q)"

text \<open>
  The paths, taken after the prefix is stripped, on which the hooks are compared with
  \<open>spec_toVirtual\<close> below: a path that begins with \<^verbatim>\<open>/snapshot/\<close>; or a path that does not
  begin with \<^verbatim>\<open><drive>\snapshot\\<close> and that, when it begins with the project root, is the
  project root (in the same letter case) followed by a separator and by the relative
  path that \<^verbatim>\<open>path.relative\<close> returns for it.
\<close>

definition spec_regularPath :: "bool \<Rightarrow> 'a config_scheme \<Rightarrow> string \<Rightarrow> bool" where
  "spec_regularPath windows cfg q =
     (if take 10 q = ''/snapshot/'' then True
      else if spec_beginsWith windows q (spec_driveSnapshot cfg) then False
      else if spec_beginsWith windows q (projectRoot cfg)
      then take (length (projectRoot cfg)) q = projectRoot cfg
           \<and> length (projectRoot cfg) < length q
           \<and> (q ! length (projectRoot cfg) = CHR ''/''
               \<or> q ! length (projectRoot cfg) = backslash)
           \<and> relative cfg (projectRoot cfg) q = drop (Suc (length (projectRoot cfg))) q
      else True)"




text \<open>
  The paths tried for an exports target \<open>candidate\<close>, and the paths tried from the
  \<^verbatim>\<open>main\<close> field on, in the order of the specification; the first that is a file is the
  result.
\<close>

definition spec_exportCandidates :: "string \<Rightarrow> string list" where
  "spec_exportCandidates candidate =
     [candidate, candidate @ ''.js'', candidate @ ''.json'', candidate @ ''.node'']"


section \<open>Concrete hosts and archives\<close>

text \<open>
  \<^verbatim>\<open>path.posix.join\<close> of the host runtime, written out so that \<open>posix_join\<close> has a value
  in the scenarios below: the non-empty segments are joined with a slash and the result
  is normalised (empty and \<^verbatim>\<open>.\<close> segments dropped, \<^verbatim>\<open>..\<close> removing the segment before it, a
  trailing slash kept).
\<close>

fun splitSlash :: "string \<Rightarrow> string list" where
  "splitSlash [] = [[]]"
| "splitSlash (c # cs) =
     (if c = CHR ''/'' then [] # splitSlash cs
      else (case splitSlash cs of [] \<Rightarrow> [[c]] | seg # segs \<Rightarrow> (c # seg) # segs))"

fun joinSlash :: "string list \<Rightarrow> string" where
  "joinSlash [] = []"
| "joinSlash [s] = s"
| "joinSlash (s # t # ss) = s @ ''/'' @ joinSlash (t # ss)"

definition normalizeStep :: "bool \<Rightarrow> string list \<Rightarrow> string \<Rightarrow> string list" where
  "normalizeStep allowAboveRoot res seg =
     (if seg = [] \<or> seg = ''.'' then res
      else if seg = ''..'' then
        (if res \<noteq> [] \<and> last res \<noteq> ''..'' then butlast res
         else if allowAboveRoot then res @ [''..''] else res)
      else res @ [seg])"

definition posixNormalize :: "string \<Rightarrow> string" where
  "posixNormalize path =
     (if path = [] then ''.''
      else
        (let isAbs = (hd path = CHR ''/'');
             trailing = (last path = CHR ''/'');
             p = joinSlash (foldl (normalizeStep (\<not> isAbs)) [] (splitSlash path))
         in if p = [] then (if isAbs then ''/'' else if trailing then ''./'' else ''.'')
            else (if isAbs then ''/'' else []) @ p @ (if trailing then ''/'' else [])))"

definition pathPosixJoin :: "string list \<Rightarrow> string" where
  "pathPosixJoin segments =
     (let nonEmpty = filter (\<lambda>s. s \<noteq> []) segments
      in if nonEmpty = [] then ''.'' else posixNormalize (joinSlash nonEmpty))"

text \<open>
  A POSIX host whose executable is \<^verbatim>\<open>/usr/bin/tool\<close>. \<open>relative\<close> is right for a path at or
  below \<open>from\<close>, the only paths it is given here.
\<close>

definition posixConfig :: config where
  "posixConfig =
     \<lparr>projectRoot = ''/usr/bin'',
      relative = (\<lambda>from to. drop (Suc (length from)) to),
      isAbsolute = (\<lambda>p. startsWith p ''/''),
      posix_join = pathPosixJoin,
      ENOENT = 2\<rparr>"

text \<open>A Windows host whose executable is in \<^verbatim>\<open>C:\app\<close>.\<close>

definition windowsConfig :: config where
  "windowsConfig =
     \<lparr>projectRoot = ''C:'' @ [backslash] @ ''app'',
      relative = (\<lambda>from to. drop (Suc (length from)) to),
      isAbsolute = (\<lambda>p. startsWith p ''/'' \<or> startsWith p [backslash]
                          \<or> startsWith (drop 1 p) '':''),
      posix_join = pathPosixJoin,
      ENOENT = 4058\<rparr>"

text \<open>
  The hooks' surroundings over an archive given by its files (path and text) and its
  directories; \<open>parsed\<close> lists what \<^verbatim>\<open>JSON.parse\<close> returns for the manifests' texts, and
  descriptor 3 is the only one open on the real file system.
\<close>

definition archiveEnv ::
  "(string \<times> string) list \<Rightarrow> string list \<Rightarrow> (string \<times> jsval) list \<Rightarrow> env" where
  "archiveEnv files dirs parsed =
     \<lparr>projectRoot = ''/usr/bin'',
      relative = (\<lambda>from to. drop (Suc (length from)) to),
      isAbsolute = (\<lambda>p. startsWith p ''/''),
      posix_join = pathPosixJoin,
      ENOENT = 2,
      fs_statSync = (\<lambda>p. if map_of files p \<noteq> None then Inr IsFile
                          else if p \<in> set dirs then Inr IsDirectory
                          else Inl (HostError 2)),
      fs_readFileSync = (\<lambda>p. case map_of files p of Some t \<Rightarrow> Inr t
                                | None \<Rightarrow> Inl (HostError 2)),
      orig_fstatSync = (\<lambda>fd. if fd = 3 then Inr () else Inl (HostError 9)),
      JSON_parse = (\<lambda>t. case map_of parsed t of Some v \<Rightarrow> Inr v | None \<Rightarrow> Inl SyntaxError)\<rparr>"

text \<open>The original \<^verbatim>\<open>Module._findPath\<close> finding nothing: it returns \<^verbatim>\<open>false\<close>.\<close>

definition findsNothing :: "jsval list \<Rightarrow> error + jsval" where
  "findsNothing args = Inr (JBool False)"

text \<open>Scenario 2 of the specification: \<^verbatim>\<open>left-pad\<close> with conditional exports.\<close>

definition leftPadText :: string where
  \<open>leftPadText =
     ''{"exports":{".":{"require":"./cjs/index.js","default":"./esm/index.js"}}}''\<close>

definition leftPadManifest :: jsval where
  "leftPadManifest =
     JObj [(''exports'',
            JObj [(''.'', JObj [(''require'', JStr ''./cjs/index.js''),
                                (''default'', JStr ''./esm/index.js'')])])]"

definition leftPadEnv :: env where
  "leftPadEnv =
     archiveEnv
       [(''/snapshot/node_modules/left-pad/package.json'', leftPadText),
        (''/snapshot/node_modules/left-pad/cjs/index.js'', ''module.exports = 1'')]
       [''/snapshot'', ''/snapshot/node_modules'', ''/snapshot/node_modules/left-pad'',
        ''/snapshot/node_modules/left-pad/cjs'']
       [(leftPadText, leftPadManifest)]"

text \<open>
  A manifest whose first condition key holds an object without a usable condition:
  \<^verbatim>\<open>{"exports":{"require":{"browser":"./b.js"},"default":"./d.js"}}\<close>.
\<close>

definition nestedText :: string where
  \<open>nestedText = ''{"exports":{"require":{"browser":"./b.js"},"default":"./d.js"}}''\<close>

definition nestedExports :: jsval where
  "nestedExports =
     JObj [(''require'', JObj [(''browser'', JStr ''./b.js'')]), (''default'', JStr ''./d.js'')]"

definition nestedEnv :: env where
  "nestedEnv =
     archiveEnv
       [(''/snapshot/node_modules/pkg/package.json'', nestedText),
        (''/snapshot/node_modules/pkg/d.js'', ''module.exports = 2'')]
       [''/snapshot'', ''/snapshot/node_modules'', ''/snapshot/node_modules/pkg'']
       [(nestedText, JObj [(''exports'', nestedExports)])]"

text \<open>Scenario 3: \<^verbatim>\<open>axios\<close>, whose \<^verbatim>\<open>main\<close> lacks its extension.\<close>

definition axiosText :: string where
  \<open>axiosText = ''{"main":"./lib/axios"}''\<close>

definition axiosEnv :: env where
  "axiosEnv =
     archiveEnv
       [(''/snapshot/node_modules/axios/package.json'', axiosText),
        (''/snapshot/node_modules/axios/lib/axios.js'', ''module.exports = 5'')]
       [''/snapshot'', ''/snapshot/node_modules'', ''/snapshot/node_modules/axios'',
        ''/snapshot/node_modules/axios/lib'']
       [(axiosText, JObj [(''main'', JStr ''./lib/axios'')])]"


text \<open>A package whose manifest is the JSON text \<^verbatim>\<open>null\<close>.\<close>

definition nullManifestEnv :: env where
  "nullManifestEnv =
     archiveEnv
       [(''/snapshot/node_modules/pkg/package.json'', ''null''),
        (''/snapshot/node_modules/pkg/index.js'', ''module.exports = 4'')]
       [''/snapshot'', ''/snapshot/node_modules'', ''/snapshot/node_modules/pkg'']
       [(''null'', JNull)]"

text \<open>An archive with an empty file and a directory.\<close>

definition emptyFileEnv :: env where
  "emptyFileEnv =
     archiveEnv
       [(''/snapshot/empty.json'', []), (''/snapshot/app/main.js'', ''console.log(1)'')]
       [''/snapshot'', ''/snapshot/app'']
       []"

text \<open>
  A host before \<^verbatim>\<open>shimFs\<close> runs: the \<^verbatim>\<open>fs\<close> object holds five functions of the runtime,
  \<^verbatim>\<open>patches\<close> is empty, and the executable \<^verbatim>\<open>/usr/bin/tool\<close> is eight bytes long, the last
  four of them the archive. Mounting replaces \<^verbatim>\<open>statSync\<close> and \<^verbatim>\<open>readFileSync\<close>; the
  replacements see one archived file.
\<close>

definition demoFile :: "byte list" where
  "demoFile = [0x7F, 0x45, 0x4C, 0x46, 0x50, 0x4B, 0x05, 0x06]"

definition demoHeader :: NexeHeader where
  "demoHeader =
     \<lparr>blobPath = ''/usr/bin/tool'', resourceStart = 4, resourceSize = 4,
      contentSize = 0, contentStart = 0\<rparr>"

definition shortHeader :: NexeHeader where
  "shortHeader =
     \<lparr>blobPath = ''/usr/bin/tool'', resourceStart = 4, resourceSize = 16,
      contentSize = 0, contentStart = 0\<rparr>"

definition demoHost :: host where
  "demoHost =
     \<lparr>call_openSync = (\<lambda>f p. if f = HostFn 1 \<and> p = ''/usr/bin/tool'' then Inr 3
                              else Inl (HostError 2)),
      call_readSync = (\<lambda>f fd n pos. if f = HostFn 2 \<and> fd = 3 then Inr (take n (drop pos demoFile))
                                     else Inl (HostError 9)),
      call_fstatSync = (\<lambda>f fd. if f = HostFn 3 \<and> fd = 3 then Inr () else Inl (HostError 9)),
      call_statSync = (\<lambda>f p. if f = HostFn 14 \<and> p = ''/snapshot/app/main.js'' then Inr IsFile
                              else if f = HostFn 14 \<and> p = ''/snapshot/app'' then Inr IsDirectory
                              else Inl (HostError 2)),
      call_readFileSync = (\<lambda>f p. if f = HostFn 15 \<and> p = ''/snapshot/app/main.js''
                                  then Inr ''console.log(1)'' else Inl (HostError 2)),
      mountSnapshot = (\<lambda>blob realFs root.
                         if blob = [0x50, 0x4B, 0x05, 0x06]
                         then Inr (realFs(''statSync'' \<mapsto> HostFn 14, ''readFileSync'' \<mapsto> HostFn 15))
                         else Inl (HostError 22)),
      parse = (\<lambda>t. Inl SyntaxError)\<rparr>"

definition demoState :: shim_state where
  "demoState =
     \<lparr>fs = [''openSync'' \<mapsto> HostFn 1, ''readSync'' \<mapsto> HostFn 2, ''fstatSync'' \<mapsto> HostFn 3,
            ''statSync'' \<mapsto> HostFn 4, ''readFileSync'' \<mapsto> HostFn 5],
      originalFsMethods = None,
      patches = Map.empty,
      originalPatches = Map.empty,
      Module_findPath = Some (HostFn 6),
      lazyRestoreFs = None\<rparr>"

text \<open>
  The shape of an \<^verbatim>\<open>fs\<close> object all of whose properties can be assigned, and the shape of
  Node's own: after the functions comes the constant \<^verbatim>\<open>F_OK\<close>, which is read-only. The
  second host state holds that constant, and \<^verbatim>\<open>patches\<close> holds an entry for the stat hook
  before \<^verbatim>\<open>shimFs\<close> runs.
\<close>

definition plainShape :: fs_shape where
  "plainShape =
     \<lparr>keyOrder = [''openSync'', ''readSync'', ''fstatSync'', ''statSync'', ''readFileSync''],
      readOnly = (\<lambda>key. False)\<rparr>"

definition nodeShape :: fs_shape where
  "nodeShape =
     \<lparr>keyOrder = [''openSync'', ''readSync'', ''fstatSync'', ''statSync'', ''readFileSync'',
                  ''F_OK''],
      readOnly = (\<lambda>key. key = ''F_OK'')\<rparr>"

definition nodeState :: shim_state where
  "nodeState =
     \<lparr>fs = [''openSync'' \<mapsto> HostFn 1, ''readSync'' \<mapsto> HostFn 2, ''fstatSync'' \<mapsto> HostFn 3,
            ''statSync'' \<mapsto> HostFn 4, ''readFileSync'' \<mapsto> HostFn 5, ''F_OK'' \<mapsto> HostValue 0],
      originalFsMethods = None,
      patches = [''internalModuleStat'' \<mapsto> HostFn 8],
      originalPatches = [''internalModuleStat'' \<mapsto> HostFn 8],
      Module_findPath = Some (HostFn 6),
      lazyRestoreFs = None\<rparr>"



definition extendedProjectFile :: string where
  "extendedProjectFile =
     [backslash, backslash, CHR ''?'', backslash] @ ''C:'' @ [backslash] @ ''app'' @ [backslash]
       @ ''src'' @ [backslash] @ ''x.js''"




section \<open>Evaluating the definitions\<close>

lemmas string_defs = startsWith_def endsWith_def slice_def replaceBackslashes_def backslash_def
  extendedPrefix_def stripExtendedPrefix_def


lemmas resolver_defs = nexeFindPath_def originalResult_def exportsStep_def mainStep_def
  normalizeMain_def isFile_def getProp_def truthy_def basePath_def exportConditions_def
  resolvePackageExports_def asString_def isObject_def firstIsDot_def findsNothing_def

lemmas join_defs = pathPosixJoin_def posixNormalize_def normalizeStep_def

lemmas demo_defs = demoHost_def demoState_def demoHeader_def shortHeader_def demoFile_def
  posixConfig_def


section \<open>Properties of the path mapping\<close>

lemma startsWith_append: "startsWith (p @ s) p"
  by (simp add: startsWith_def)

lemma toSnapshotPath_range:
  "toSnapshotPath cfg p = p \<or> startsWith (toSnapshotPath cfg p) ''/snapshot/''"
  unfolding toSnapshotPath_def
  using startsWith_append [of "''/snapshot/''"] by auto

lemma toSnapshotPath_fixed:
  "startsWith p ''/snapshot/'' \<Longrightarrow> toSnapshotPath cfg p = p"
  by (simp add: toSnapshotPath_def)

lemma toSnapshotPath_twice:
  "toSnapshotPath cfg (toSnapshotPath cfg p) = toSnapshotPath cfg p"
  using toSnapshotPath_range [of cfg p] toSnapshotPath_fixed by auto

lemma toSnapshotPath_hookEnv [simp]:
  "toSnapshotPath (hookEnv h cfg s) p = toSnapshotPath cfg p"
  by (simp add: toSnapshotPath_def hookEnv_def drive_def)

text \<open>
  The Windows-style branch in general: the remainder after \<^verbatim>\<open>drive + "\\snapshot\\"\<close> comes
  back behind \<^verbatim>\<open>/snapshot//\<close>, with two separators, since the slice keeps the last
  backslash of the prefix.
\<close>

lemma toSnapshotPath_windows_branch:
  assumes "\<not> startsWith (drive cfg @ [backslash] @ ''snapshot'' @ [backslash] @ rest) ''/snapshot/''"
  shows "toSnapshotPath cfg (drive cfg @ [backslash] @ ''snapshot'' @ [backslash] @ rest)
           = ''/snapshot//'' @ replaceBackslashes rest"
proof -
  let ?pre = "drive cfg @ [backslash] @ ''snapshot'' @ [backslash]"
  have a: "startsWith (?pre @ rest) ?pre"
    by (rule startsWith_append)
  have b: "slice (length (drive cfg) + 9) (?pre @ rest) = backslash # rest"
    by (simp add: slice_def)
  have c: "replaceBackslashes (backslash # rest) = CHR ''/'' # replaceBackslashes rest"
    by (simp add: replaceBackslashes_def)
  from assms a b c show ?thesis
    by (simp add: toSnapshotPath_def)
qed

text \<open>
  C3. A path that begins with \<^verbatim>\<open><drive>\snapshot\\<close> should map to \<^verbatim>\<open>/snapshot/\<close> followed by
  the remainder with slashes, so \<^verbatim>\<open>C:\snapshot\src\entry.js\<close> should map to
  \<^verbatim>\<open>/snapshot/src/entry.js\<close>. With the project root \<^verbatim>\<open>C:\app\<close> the source returns
  \<^verbatim>\<open>/snapshot//src/entry.js\<close>: the slice starts one code unit early.
\<close>

theorem toSnapshotPath_windows_entry:
  "toSnapshotPath windowsConfig
     (''C:'' @ [backslash] @ ''snapshot'' @ [backslash] @ ''src'' @ [backslash] @ ''entry.js'')
   = ''/snapshot//src/entry.js''"
  by (simp add: toSnapshotPath_def windowsConfig_def drive_def string_defs)

section \<open>The path normaliser of the hooks\<close>

lemma snapshot_not_extended:
  "startsWith p ''/snapshot/'' \<Longrightarrow> \<not> startsWith p extendedPrefix"
  by (cases p) (auto simp: startsWith_def extendedPrefix_def backslash_def)

lemma extended_length: "startsWith p extendedPrefix \<Longrightarrow> 4 \<le> length p"
proof -
  assume "startsWith p extendedPrefix"
  then have "take (length extendedPrefix) p = extendedPrefix"
    unfolding startsWith_def .
  then have "length (take (length extendedPrefix) p) = length extendedPrefix"
    by (rule arg_cong)
  then have "length extendedPrefix \<le> length p"
    by simp
  then show ?thesis
    by (simp add: extendedPrefix_def)
qed

lemma toVirtual_keeps_unprefixed:
  assumes "\<not> startsWith (stripExtendedPrefix p) extendedPrefix"
  shows "\<not> startsWith (toVirtual cfg p) extendedPrefix"
  using toSnapshotPath_range [of cfg "stripExtendedPrefix p"] assms snapshot_not_extended
  by (auto simp: toVirtual_def)

lemma toVirtual_changes_prefixed:
  assumes "startsWith r extendedPrefix"
  shows "toVirtual cfg r \<noteq> r"
proof -
  from assms have len: "4 \<le> length r" by (rule extended_length)
  have eq: "toVirtual cfg r = toSnapshotPath cfg (drop 4 r)"
    using assms by (simp add: toVirtual_def stripExtendedPrefix_def slice_def)
  from toSnapshotPath_range [of cfg "drop 4 r"] show ?thesis
  proof
    assume "toSnapshotPath cfg (drop 4 r) = drop 4 r"
    with eq have "length (toVirtual cfg r) = length r - 4" by simp
    with len show ?thesis by auto
  next
    assume "startsWith (toSnapshotPath cfg (drop 4 r)) ''/snapshot/''"
    with eq have "startsWith (toVirtual cfg r) ''/snapshot/''" by simp
    then have "\<not> startsWith (toVirtual cfg r) extendedPrefix"
      by (rule snapshot_not_extended)
    with assms show ?thesis by auto
  qed
qed

text \<open>
  C9, as the source has it. The normaliser of the hooks, \<open>toVirtual\<close>, strips the
  extended-length prefix once and then applies \<^verbatim>\<open>toSnapshotPath\<close>. Applying it twice gives
  the same as applying it once exactly when the result of applying it once does not
  begin with the extended-length prefix; that is so for every path that carries the
  prefix at most once. A path that already begins with \<^verbatim>\<open>/snapshot/\<close> comes back unchanged.
\<close>

theorem toVirtual_idempotent:
  "(toVirtual cfg (toVirtual cfg p) = toVirtual cfg p
      \<longleftrightarrow> \<not> startsWith (toVirtual cfg p) extendedPrefix)
   \<and> (\<not> startsWith (stripExtendedPrefix p) extendedPrefix \<longrightarrow>
        toVirtual cfg (toVirtual cfg p) = toVirtual cfg p)
   \<and> (startsWith p ''/snapshot/'' \<longrightarrow> toVirtual cfg p = p)"
proof -
  have unprefixed: "toVirtual cfg (toVirtual cfg p) = toVirtual cfg p"
    if "\<not> startsWith (toVirtual cfg p) extendedPrefix"
  proof -
    from that have "toVirtual cfg (toVirtual cfg p) = toSnapshotPath cfg (toVirtual cfg p)"
      by (simp add: toVirtual_def [of cfg "toVirtual cfg p"] stripExtendedPrefix_def)
    then show ?thesis
      by (simp add: toVirtual_def [of cfg p] toSnapshotPath_twice)
  qed
  have iff: "toVirtual cfg (toVirtual cfg p) = toVirtual cfg p
      \<longleftrightarrow> \<not> startsWith (toVirtual cfg p) extendedPrefix"
    using unprefixed toVirtual_changes_prefixed [of "toVirtual cfg p" cfg] by blast
  have once: "toVirtual cfg (toVirtual cfg p) = toVirtual cfg p"
    if "\<not> startsWith (stripExtendedPrefix p) extendedPrefix"
    using that by (intro unprefixed toVirtual_keeps_unprefixed)
  have fixed: "toVirtual cfg p = p" if "startsWith p ''/snapshot/''"
    using that snapshot_not_extended [OF that]
    by (simp add: toVirtual_def stripExtendedPrefix_def toSnapshotPath_fixed)
  from iff once fixed show ?thesis by blast
qed

theorem toVirtual_idempotent_witness:
  "\<not> startsWith (toVirtual windowsConfig extendedProjectFile) extendedPrefix
   \<and> \<not> startsWith (stripExtendedPrefix extendedProjectFile) extendedPrefix
   \<and> toVirtual windowsConfig extendedProjectFile = ''/snapshot/src/x.js''
   \<and> toVirtual windowsConfig (toVirtual windowsConfig extendedProjectFile) = ''/snapshot/src/x.js''
   \<and> startsWith ''/snapshot/src/x.js'' ''/snapshot/''
   \<and> toVirtual windowsConfig ''/snapshot/src/x.js'' = ''/snapshot/src/x.js''"
proof -
  have v: "toVirtual windowsConfig extendedProjectFile = ''/snapshot/src/x.js''"
    by (simp add: toVirtual_def toSnapshotPath_def windowsConfig_def drive_def
        extendedProjectFile_def string_defs)
  have a: "\<not> startsWith (toVirtual windowsConfig extendedProjectFile) extendedPrefix"
    unfolding v by (simp add: string_defs)
  have b: "\<not> startsWith (stripExtendedPrefix extendedProjectFile) extendedPrefix"
    by (simp add: extendedProjectFile_def string_defs)
  have c: "startsWith ''/snapshot/src/x.js'' ''/snapshot/''"
    by (simp add: startsWith_def)
  from toVirtual_idempotent [of windowsConfig extendedProjectFile]
    toVirtual_idempotent [of windowsConfig "''/snapshot/src/x.js''"] a b c v
  show ?thesis by simp
qed

text \<open>
  C9 as stated fails: a path that carries the prefix twice is mapped to one that still
  carries it once, and only the second application reaches \<^verbatim>\<open>/snapshot/app/main.js\<close>.
\<close>

theorem toVirtual_doubled_prefix:
  "toVirtual posixConfig (extendedPrefix @ extendedPrefix @ ''/usr/bin/app/main.js'')
     = extendedPrefix @ ''/usr/bin/app/main.js''
   \<and> toVirtual posixConfig
        (toVirtual posixConfig (extendedPrefix @ extendedPrefix @ ''/usr/bin/app/main.js''))
     = ''/snapshot/app/main.js''
   \<and> toVirtual posixConfig
        (toVirtual posixConfig (extendedPrefix @ extendedPrefix @ ''/usr/bin/app/main.js''))
     \<noteq> toVirtual posixConfig (extendedPrefix @ extendedPrefix @ ''/usr/bin/app/main.js'')"
  by (simp add: toVirtual_def toSnapshotPath_def posixConfig_def drive_def string_defs)

text \<open>
  Scenario 5 of the specification: on a Windows host with project root \<^verbatim>\<open>C:\app\<close>, the
  path \<^verbatim>\<open>\\?\C:\app\src\x.js\<close> is mapped, as the hooks map it, to \<^verbatim>\<open>/snapshot/src/x.js\<close>.
\<close>

lemma extended_prefix_under_project_root:
  "toSnapshotPath windowsConfig
     (stripExtendedPrefix
        (extendedPrefix @ ''C:'' @ [backslash] @ ''app'' @ [backslash] @ ''src'' @ [backslash]
           @ ''x.js''))
   = ''/snapshot/src/x.js''"
  by (simp add: toSnapshotPath_def windowsConfig_def drive_def string_defs)

text \<open>
  The normaliser of the hooks against the normaliser of the specification: they agree on
  every path that, with the prefix stripped, is regular in the sense of
  \<open>spec_regularPath\<close>. On a path that begins with \<^verbatim>\<open><drive>\snapshot\\<close> they differ, as
  \<open>toSnapshotPath_windows_branch\<close> shows.
\<close>

lemma spec_stripPrefix_code: "spec_stripPrefix p = stripExtendedPrefix p"
proof -
  have "length extendedPrefix = 4"
    by (simp add: extendedPrefix_def)
  then have "startsWith p extendedPrefix \<longleftrightarrow> take 4 p = extendedPrefix"
    by (simp add: startsWith_def)
  then show ?thesis
    by (simp add: spec_stripPrefix_def stripExtendedPrefix_def slice_def extendedPrefix_def)
qed

lemma spec_slashes_code: "spec_slashes s = replaceBackslashes s"
  by (simp add: spec_slashes_def replaceBackslashes_def)

lemma spec_snapshot_code: "take 10 q = ''/snapshot/'' \<longleftrightarrow> startsWith q ''/snapshot/''"
  by (simp add: startsWith_def eval_nat_numeral)

lemma spec_driveSnapshot_code:
  "spec_driveSnapshot cfg = drive cfg @ [backslash] @ ''snapshot'' @ [backslash]"
  by (simp add: spec_driveSnapshot_def drive_def)

lemma startsWith_beginsWith: "startsWith q pre \<Longrightarrow> spec_beginsWith windows q pre"
  by (simp add: startsWith_def spec_beginsWith_def Let_def)

lemma toVirtual_refines:
  assumes "spec_regularPath windows cfg (spec_stripPrefix p)"
  shows "toVirtual cfg p = spec_toVirtual windows cfg p"
proof -
  let ?q = "stripExtendedPrefix p"
  let ?root = "projectRoot cfg"
  let ?ds = "drive cfg @ [backslash] @ ''snapshot'' @ [backslash]"
  from assms have regular: "spec_regularPath windows cfg ?q"
    by (simp add: spec_stripPrefix_code)
  show ?thesis
  proof (cases "startsWith ?q ''/snapshot/''")
    case True
    then show ?thesis
      by (simp add: toVirtual_def toSnapshotPath_def spec_toVirtual_def Let_def
          spec_stripPrefix_code spec_snapshot_code)
  next
    case outside: False
    with regular have no_ds: "\<not> spec_beginsWith windows ?q ?ds"
      by (auto simp: spec_regularPath_def spec_snapshot_code spec_driveSnapshot_code
          split: if_splits)
    then have code_ds: "\<not> startsWith ?q ?ds"
      using startsWith_beginsWith by blast
    show ?thesis
    proof (cases "spec_beginsWith windows ?q ?root")
      case True
      with regular outside no_ds have shape: "take (length ?root) ?q = ?root"
        "length ?root < length ?q"
        "?q ! length ?root = CHR ''/'' \<or> ?q ! length ?root = backslash"
        "relative cfg ?root ?q = drop (Suc (length ?root)) ?q"
        by (simp_all add: spec_regularPath_def spec_snapshot_code spec_driveSnapshot_code)
      from shape(1) have code_root: "startsWith ?q ?root"
        by (simp add: startsWith_def)
      from shape(2) have split: "drop (length ?root) ?q
          = ?q ! length ?root # drop (Suc (length ?root)) ?q"
        by (simp add: Cons_nth_drop_Suc)
      have "replaceBackslashes (drop (length ?root) ?q)
          = CHR ''/'' # replaceBackslashes (drop (Suc (length ?root)) ?q)"
        unfolding split using shape(3) by (auto simp: replaceBackslashes_def)
      with outside code_ds code_root shape(4) True no_ds show ?thesis
        by (simp add: toVirtual_def toSnapshotPath_def spec_toVirtual_def Let_def
            spec_stripPrefix_code spec_snapshot_code spec_driveSnapshot_code spec_slashes_code)
    next
      case False
      then have "\<not> startsWith ?q ?root"
        using startsWith_beginsWith by blast
      with outside code_ds False no_ds show ?thesis
        by (simp add: toVirtual_def toSnapshotPath_def spec_toVirtual_def Let_def
            spec_stripPrefix_code spec_snapshot_code spec_driveSnapshot_code)
    qed
  qed
qed


section \<open>The read hooks\<close>




section \<open>The stat hook\<close>

text \<open>
  C10. When the first argument is neither a number nor a string and the second is not
  a string, \<^verbatim>\<open>internalModuleStat\<close> calls \<open>original\<close> with the arguments as they came and
  returns what it returns (or throws what it throws).
\<close>

theorem internalModuleStat_fallback:
  assumes "\<not> isNumber (arg args 0)" and "asString (arg args 0) = None"
    and "asString (arg args 1) = None"
  shows "internalModuleStat e original args = original args"
  using assms
  by (auto simp: internalModuleStat_def isNumber_def asString_def split: jsval.splits)

theorem internalModuleStat_fallback_witness:
  "\<not> isNumber (arg [JNull, JNum 7] 0) \<and> asString (arg [JNull, JNum 7] 0) = None
   \<and> asString (arg [JNull, JNum 7] 1) = None
   \<and> internalModuleStat emptyFileEnv (\<lambda>args. Inr (JArr args)) [JNull, JNum 7]
       = Inr (JArr [JNull, JNum 7])"
proof -
  have a: "\<not> isNumber (arg [JNull, JNum 7] 0)" by (simp add: isNumber_def arg_def)
  have b: "asString (arg [JNull, JNum 7] 0) = None" by (simp add: asString_def arg_def)
  have c: "asString (arg [JNull, JNum 7] 1) = None" by (simp add: asString_def arg_def)
  from a b c internalModuleStat_fallback [OF a b c, of emptyFileEnv "\<lambda>args. Inr (JArr args)"]
  show ?thesis by simp
qed


lemma shimFs_saves_originals:
  assumes "originalFsMethods s0 = None"
  shows "originalFsMethods (snd (shimFs h cfg b s0)) = Some (fs s0)"
  using assms
  by (simp add: shimFs_def Let_def split: sum.splits option.splits)

lemma shimFs_failure_keeps_fs:
  assumes "fst (shimFs h cfg b s0) = Some err"
  shows "fs (snd (shimFs h cfg b s0)) = fs s0"
  using assms
  by (auto simp: shimFs_def Let_def split: sum.splits option.splits if_splits)

lemma shimFs_noop_when_installed:
  "originalFsMethods s \<noteq> None \<Longrightarrow> shimFs h cfg b s = (None, s)"
  by (simp add: shimFs_def)

lemma demo_install:
  "shimFs demoHost posixConfig demoHeader demoState =
     (None,
      demoState\<lparr>originalFsMethods := Some (fs demoState),
                fs := (fs demoState)(''statSync'' \<mapsto> HostFn 14, ''readFileSync'' \<mapsto> HostFn 15),
                patches := [''internalModuleReadFile'' \<mapsto> ReadFileHook,
                            ''internalModuleReadJSON'' \<mapsto> ReadJSONHook,
                            ''internalModuleStat'' \<mapsto> StatHook],
                Module_findPath := Some (FindPathHook (HostFn 6)),
                lazyRestoreFs := Some (Some (HostFn 6))\<rparr>)"
  by (simp add: shimFs_def readBlob_def demo_defs Let_def)

lemma demo_short_read:
  "shimFs demoHost posixConfig shortHeader demoState =
     (Some AssertionError, demoState\<lparr>originalFsMethods := Some (fs demoState)\<rparr>)"
  by (simp add: shimFs_def readBlob_def demo_defs Let_def)

text \<open>
  On the other paths, and on descriptors, the hook does what the specification says,
  after \<^verbatim>\<open>shimFs\<close> has run from a state where nothing was installed: for a number \<open>fd\<close> it
  calls the \<^verbatim>\<open>fstatSync\<close> that the \<^verbatim>\<open>fs\<close> object held before \<^verbatim>\<open>shimFs\<close> patched it, and
  returns 0 when that returns and \<open>- ENOENT\<close> when it throws; for a regular path \<open>p\<close> it calls
  \<^verbatim>\<open>statSync\<close> of the patched \<^verbatim>\<open>fs\<close> on \<open>spec_toVirtual p\<close> and returns 1 for a directory, 0
  for a file and \<open>- ENOENT\<close> when the call throws.
\<close>

lemma internalModuleStat_spec:
  assumes "originalFsMethods s0 = None" and "shimFs h cfg binary s0 = (None, s1)"
  shows "(arg args 0 = JNum fd \<longrightarrow>
            internalModuleStat (hookEnv h cfg s1) original args =
              Inr (JNum (case callMethod (Some (fs s0)) ''fstatSync'' (call_fstatSync h) fd of
                           Inr u \<Rightarrow> 0
                         | Inl err \<Rightarrow> - ENOENT cfg)))
       \<and> (spec_statPath args = Some p \<and> spec_regularPath windows cfg (spec_stripPrefix p) \<longrightarrow>
            internalModuleStat (hookEnv h cfg s1) original args =
              Inr (JNum (case callMethod (Some (fs s1)) ''statSync'' (call_statSync h)
                                (spec_toVirtual windows cfg p) of
                           Inr IsDirectory \<Rightarrow> 1
                         | Inr IsFile \<Rightarrow> 0
                         | Inr IsOther \<Rightarrow> 0
                         | Inl err \<Rightarrow> - ENOENT cfg)))"
proof -
  have saved: "originalFsMethods s1 = Some (fs s0)"
    using shimFs_saves_originals [OF assms(1), of h cfg binary] assms(2) by simp
  have fd_case: "arg args 0 = JNum fd \<Longrightarrow>
      internalModuleStat (hookEnv h cfg s1) original args =
        Inr (JNum (case callMethod (Some (fs s0)) ''fstatSync'' (call_fstatSync h) fd of
                     Inr u \<Rightarrow> 0 | Inl err \<Rightarrow> - ENOENT cfg))"
    by (simp add: internalModuleStat_def hookEnv_def saved split: sum.splits)
  have path_case: "internalModuleStat (hookEnv h cfg s1) original args =
        Inr (JNum (case callMethod (Some (fs s1)) ''statSync'' (call_statSync h)
                          (spec_toVirtual windows cfg p) of
                     Inr IsDirectory \<Rightarrow> 1 | Inr IsFile \<Rightarrow> 0 | Inr IsOther \<Rightarrow> 0
                   | Inl err \<Rightarrow> - ENOENT cfg))"
    if sel: "spec_statPath args = Some p"
      and regular: "spec_regularPath windows cfg (spec_stripPrefix p)"
  proof -
    have env_stat: "fs_statSync (hookEnv h cfg s1)
        = callMethod (Some (fs s1)) ''statSync'' (call_statSync h)"
      by (simp add: hookEnv_def)
    have enoent: "ENOENT (hookEnv h cfg s1) = ENOENT cfg"
      by (simp add: hookEnv_def)
    have mapped: "toSnapshotPath cfg (stripExtendedPrefix p) = spec_toVirtual windows cfg p"
      using toVirtual_refines [OF regular] by (simp add: toVirtual_def)
    from sel show ?thesis
      unfolding internalModuleStat_def env_stat enoent
      by (auto simp: spec_statPath_def asString_def isNumber_def mapped
          split: jsval.splits sum.splits stat_kind.splits if_splits)
  qed
  from fd_case path_case show ?thesis by blast
qed

section \<open>Installing twice and restoring\<close>

lemma node_install:
  "shimFs demoHost posixConfig demoHeader nodeState =
     (None,
      nodeState\<lparr>originalFsMethods := Some (fs nodeState),
                fs := (fs nodeState)(''statSync'' \<mapsto> HostFn 14, ''readFileSync'' \<mapsto> HostFn 15),
                patches := [''internalModuleStat'' \<mapsto> StatHook,
                            ''internalModuleReadFile'' \<mapsto> ReadFileHook,
                            ''internalModuleReadJSON'' \<mapsto> ReadJSONHook],
                Module_findPath := Some (FindPathHook (HostFn 6)),
                lazyRestoreFs := Some (Some (HostFn 6))\<rparr>)"
  by (simp add: shimFs_def readBlob_def demoHost_def demoHeader_def demoFile_def posixConfig_def
      nodeState_def Let_def fun_upd_twist)

text \<open>
  C2. After \<^verbatim>\<open>shimFs\<close>, \<^verbatim>\<open>shimFs\<close> again and \<^verbatim>\<open>restoreFs\<close>, every hooked primitive should be
  the one it was and the saved originals should be cleared. Over an \<^verbatim>\<open>fs\<close> object shaped
  as Node's own, the second \<^verbatim>\<open>shimFs\<close> changes nothing, and \<^verbatim>\<open>restoreFs\<close> throws a TypeError
  at the read-only \<^verbatim>\<open>F_OK\<close>: the entry of \<^verbatim>\<open>patches\<close> still holds the hook and not the
  function it held before, \<^verbatim>\<open>Module._findPath\<close> is still \<^verbatim>\<open>nexeFindPath\<close>, and
  \<^verbatim>\<open>originalFsMethods\<close> is still set.
\<close>

theorem uninstall_throws_on_read_only_property:
  "shimFs demoHost posixConfig demoHeader
     (snd (shimFs demoHost posixConfig demoHeader nodeState))
     = (None, snd (shimFs demoHost posixConfig demoHeader nodeState))
   \<and> fst (restoreFs nodeShape (snd (shimFs demoHost posixConfig demoHeader nodeState)))
     = Some TypeError
   \<and> patches nodeState ''internalModuleStat'' = Some (HostFn 8)
   \<and> patches (snd (restoreFs nodeShape (snd (shimFs demoHost posixConfig demoHeader nodeState))))
       ''internalModuleStat''
     = Some StatHook
   \<and> Module_findPath nodeState = Some (HostFn 6)
   \<and> Module_findPath
       (snd (restoreFs nodeShape (snd (shimFs demoHost posixConfig demoHeader nodeState))))
     = Some (FindPathHook (HostFn 6))
   \<and> originalFsMethods
       (snd (restoreFs nodeShape (snd (shimFs demoHost posixConfig demoHeader nodeState))))
     \<noteq> None"
proof -
  have second: "shimFs demoHost posixConfig demoHeader
     (snd (shimFs demoHost posixConfig demoHeader nodeState))
     = (None, snd (shimFs demoHost posixConfig demoHeader nodeState))"
    by (rule shimFs_noop_when_installed) (simp add: node_install)
  have before: "patches nodeState ''internalModuleStat'' = Some (HostFn 8)"
    "Module_findPath nodeState = Some (HostFn 6)"
    by (simp_all add: nodeState_def)
  have assign: "objectAssign nodeShape
      ((fs nodeState)(''statSync'' \<mapsto> HostFn 14, ''readFileSync'' \<mapsto> HostFn 15))
      (Some (fs nodeState))
      = (Some TypeError, fs nodeState)"
    by (simp add: objectAssign_def nodeShape_def nodeState_def fun_eq_iff)
  have after: "restoreFs nodeShape (snd (shimFs demoHost posixConfig demoHeader nodeState))
      = (Some TypeError, (snd (shimFs demoHost posixConfig demoHeader nodeState))
           \<lparr>fs := fs nodeState\<rparr>)"
    unfolding node_install by (simp add: restoreFs_def assign)
  show ?thesis
    unfolding after using second before by (simp add: node_install)
qed

text \<open>
  Over an \<^verbatim>\<open>fs\<close> object all of whose properties can be assigned, \<^verbatim>\<open>restoreFs\<close> returns and
  puts back what \<^verbatim>\<open>shimFs\<close> replaced: every property that \<^verbatim>\<open>fs\<close> had, every entry that
  \<^verbatim>\<open>patches\<close> had, and \<^verbatim>\<open>Module._findPath\<close>. Also then \<^verbatim>\<open>originalFsMethods\<close> stays set, so
  that a later \<^verbatim>\<open>shimFs\<close> does nothing.
\<close>

lemma uninstall_leaves_originals_saved:
  "fst (restoreFs plainShape (snd (shimFs demoHost posixConfig demoHeader demoState))) = None
   \<and> fs (snd (restoreFs plainShape (snd (shimFs demoHost posixConfig demoHeader demoState))))
     = fs demoState
   \<and> originalFsMethods
       (snd (restoreFs plainShape (snd (shimFs demoHost posixConfig demoHeader demoState))))
     = Some (fs demoState)"
proof -
  have assign: "objectAssign plainShape
      ((fs demoState)(''statSync'' \<mapsto> HostFn 14, ''readFileSync'' \<mapsto> HostFn 15))
      (Some (fs demoState))
      = (None, fs demoState)"
    by (simp add: objectAssign_def plainShape_def demoState_def fun_eq_iff)
  show ?thesis
    unfolding demo_install by (simp add: restoreFs_def assign)
qed

lemma assignKeys_assignable:
  assumes "\<And>key. \<not> rejects key"
  shows "assignKeys rejects keys source target = (None, target ++ (source |` set keys))"
proof (induction keys arbitrary: target)
  case Nil
  then show ?case by simp
next
  case (Cons key keys)
  show ?case
  proof (cases "source key")
    case None
    then have "source |` set (key # keys) = source |` set keys"
      by (auto simp: restrict_map_def fun_eq_iff)
    with None Cons show ?thesis by simp
  next
    case (Some v)
    have merged: "target(key \<mapsto> v) ++ (source |` set keys)
        = target ++ (source |` set (key # keys))"
      using Some by (auto simp: map_add_def restrict_map_def fun_eq_iff split: option.splits)
    have "assignKeys rejects (key # keys) source target
        = assignKeys rejects keys source (target(key \<mapsto> v))"
      using Some assms by simp
    also have "\<dots> = (None, target(key \<mapsto> v) ++ (source |` set keys))"
      by (rule Cons.IH)
    finally show ?thesis
      unfolding merged .
  qed
qed

lemma restoreFs_assignable:
  assumes "moduleLoaded s0"
    and "\<And>key. \<not> readOnly shape key"
    and "dom (fs s0) \<subseteq> set (keyOrder shape)"
  shows "fst (restoreFs shape (snd (shimFs h cfg b s0))) = None
       \<and> (\<forall>k\<in>dom (fs s0). fs (snd (restoreFs shape (snd (shimFs h cfg b s0)))) k = fs s0 k)
       \<and> (\<forall>k\<in>dom (patches s0).
             patches (snd (restoreFs shape (snd (shimFs h cfg b s0)))) k = patches s0 k)
       \<and> Module_findPath (snd (restoreFs shape (snd (shimFs h cfg b s0)))) = Module_findPath s0"
proof -
  have assign: "objectAssign shape target (Some (fs s0))
      = (None, target ++ (fs s0 |` set (keyOrder shape)))" for target
    using assms(2) by (simp add: objectAssign_def assignKeys_assignable)
  have covered: "(target ++ (fs s0 |` set (keyOrder shape))) k = fs s0 k"
    if "k \<in> dom (fs s0)" for target k
    using that assms(3) by (auto simp: map_add_def restrict_map_def split: option.splits)
  from assms(1) have loaded: "originalFsMethods s0 = None" "lazyRestoreFs s0 = None"
    "originalPatches s0 = patches s0"
    by (simp_all add: moduleLoaded_def)
  have kept: "(target ++ patches s0) k = patches s0 k" if "k \<in> dom (patches s0)" for target k
    using that by (simp add: map_add_dom_app_simps)
  show ?thesis
  proof (cases "lazyRestoreFs (snd (shimFs h cfg b s0))")
    case None
    then have "snd (shimFs h cfg b s0) = s0\<lparr>originalFsMethods := Some (fs s0)\<rparr>"
      using loaded by (simp add: shimFs_def Let_def split: sum.splits option.splits)
    with None loaded show ?thesis
      by (simp add: restoreFs_def)
  next
    case (Some captured)
    then obtain blob patched
      where mounted: "readBlob h (fs s0) b = Inr blob"
        "mountSnapshot h blob (fs s0) (projectRoot cfg) = Inr patched"
      using loaded by (auto simp: shimFs_def Let_def split: sum.splits option.splits)
    with loaded show ?thesis
      by (cases "Module_findPath s0")
        (simp_all add: shimFs_def restoreFs_def assign Let_def covered kept)
  qed
qed

section \<open>Reading the archive blob\<close>

text \<open>
  C8. \<^verbatim>\<open>shimFs\<close>, run while nothing is installed, opens \<^verbatim>\<open>blobPath\<close> with the
  \<^verbatim>\<open>openSync\<close> and reads \<^verbatim>\<open>resourceSize\<close> bytes at \<^verbatim>\<open>resourceStart\<close> with the \<^verbatim>\<open>readSync\<close>
  that the \<^verbatim>\<open>fs\<close> object holds on entry. When fewer (or more) bytes come back it throws
  an AssertionError and has patched nothing; otherwise exactly those bytes are mounted,
  and a failure to mount is thrown to the caller as well.
\<close>

theorem shimFs_reads_blob:
  assumes "originalFsMethods s = None"
    and "fs s ''openSync'' = Some openf"
    and "call_openSync h openf (blobPath b) = Inr fd"
    and "fs s ''readSync'' = Some readf"
    and "call_readSync h readf fd (resourceSize b) (resourceStart b) = Inr bytes"
  shows "(length bytes \<noteq> resourceSize b \<longrightarrow>
            shimFs h cfg b s = (Some AssertionError, s\<lparr>originalFsMethods := Some (fs s)\<rparr>))
       \<and> (length bytes = resourceSize b \<longrightarrow>
            (\<forall>err. mountSnapshot h bytes (fs s) (projectRoot cfg) = Inl err \<longrightarrow>
                   shimFs h cfg b s = (Some err, s\<lparr>originalFsMethods := Some (fs s)\<rparr>))
            \<and> (\<forall>patched. mountSnapshot h bytes (fs s) (projectRoot cfg) = Inr patched \<longrightarrow>
                   fst (shimFs h cfg b s) = None \<and> fs (snd (shimFs h cfg b s)) = patched))"
proof -
  have blob: "readBlob h (fs s) b =
      (if length bytes = resourceSize b then Inr bytes else Inl AssertionError)"
    using assms(2-5) by (simp add: readBlob_def)
  show ?thesis
    using assms(1) blob
    by (auto simp: shimFs_def Let_def split: option.splits)
qed

theorem shimFs_reads_blob_witness:
  "originalFsMethods demoState = None
   \<and> fs demoState ''openSync'' = Some (HostFn 1)
   \<and> call_openSync demoHost (HostFn 1) (blobPath demoHeader) = Inr 3
   \<and> fs demoState ''readSync'' = Some (HostFn 2)
   \<and> call_readSync demoHost (HostFn 2) 3 (resourceSize demoHeader) (resourceStart demoHeader)
       = Inr [0x50, 0x4B, 0x05, 0x06]
   \<and> fst (shimFs demoHost posixConfig demoHeader demoState) = None
   \<and> fs (snd (shimFs demoHost posixConfig demoHeader demoState))
       = (fs demoState)(''statSync'' \<mapsto> HostFn 14, ''readFileSync'' \<mapsto> HostFn 15)
   \<and> call_readSync demoHost (HostFn 2) 3 (resourceSize shortHeader) (resourceStart shortHeader)
       = Inr [0x50, 0x4B, 0x05, 0x06]
   \<and> shimFs demoHost posixConfig shortHeader demoState
       = (Some AssertionError, demoState\<lparr>originalFsMethods := Some (fs demoState)\<rparr>)"
proof -
  have a: "originalFsMethods demoState = None" by (simp add: demoState_def)
  have b: "fs demoState ''openSync'' = Some (HostFn 1)" by (simp add: demoState_def)
  have c: "call_openSync demoHost (HostFn 1) (blobPath demoHeader) = Inr 3"
    by (simp add: demoHost_def demoHeader_def)
  have c': "call_openSync demoHost (HostFn 1) (blobPath shortHeader) = Inr 3"
    by (simp add: demoHost_def shortHeader_def)
  have d: "fs demoState ''readSync'' = Some (HostFn 2)" by (simp add: demoState_def)
  have e: "call_readSync demoHost (HostFn 2) 3 (resourceSize demoHeader) (resourceStart demoHeader)
       = Inr [0x50, 0x4B, 0x05, 0x06]"
    by (simp add: demoHost_def demoHeader_def demoFile_def)
  have e': "call_readSync demoHost (HostFn 2) 3 (resourceSize shortHeader) (resourceStart shortHeader)
       = Inr [0x50, 0x4B, 0x05, 0x06]"
    by (simp add: demoHost_def shortHeader_def demoFile_def)
  have m: "mountSnapshot demoHost [0x50, 0x4B, 0x05, 0x06] (fs demoState) (projectRoot posixConfig)
       = Inr ((fs demoState)(''statSync'' \<mapsto> HostFn 14, ''readFileSync'' \<mapsto> HostFn 15))"
    by (simp add: demoHost_def)
  have l: "length [0x50, 0x4B, 0x05, 0x06 :: byte] = resourceSize demoHeader"
    "length [0x50, 0x4B, 0x05, 0x06 :: byte] \<noteq> resourceSize shortHeader"
    by (simp_all add: demoHeader_def shortHeader_def)
  from shimFs_reads_blob [OF a b c d e, of posixConfig]
    shimFs_reads_blob [OF a b c' d e', of posixConfig] a b c d e e' m l
  show ?thesis by simp
qed

section \<open>The module resolver hook: exports\<close>

lemma tryExtensions_find:
  "tryExtensions e candidate exts = find (isFile e) (map (\<lambda>ext. candidate @ ext) exts)"
  by (induction exts) simp_all

lemma spec_target_refined:
  "spec_resolveTarget conditions v = Some t \<Longrightarrow> t \<noteq> [] \<Longrightarrow>
     resolveExportsObject conditions v = Some t"
  "spec_firstPresent conditions kvs = Some t \<Longrightarrow> t \<noteq> [] \<Longrightarrow>
     resolveKeys conditions kvs = Some t"
proof (induction conditions v and conditions kvs
    rule: spec_resolveTarget_spec_firstPresent.induct)
  case (9 conditions key v rest)
  show ?case
  proof (cases "key \<in> set conditions")
    case True
    with 9 have spec: "spec_resolveTarget conditions v = Some t" by simp
    show ?thesis
    proof (cases v)
      case (JStr s)
      with spec True show ?thesis by (simp add: asString_def)
    next
      case (JObj inner)
      with 9 True spec have "resolveExportsObject conditions v = Some t" by simp
      with JObj True 9 show ?thesis by (simp add: asString_def isObject_def)
    qed (use spec in simp_all)
  next
    case False
    with 9 show ?thesis by simp
  qed
qed simp_all

lemma spec_exports_refined:
  assumes "spec_resolveExports conditions exports = Some t" and "t \<noteq> []"
  shows "resolvePackageExports exports conditions = Some t"
proof (cases exports)
  case (JStr s)
  with assms show ?thesis
    by (simp add: spec_resolveExports_def resolvePackageExports_def asString_def)
next
  case (JObj kvs)
  show ?thesis
  proof (cases "map_of kvs ''.''")
    case None
    with JObj assms have "spec_resolveTarget conditions exports = Some t"
      by (simp add: spec_resolveExports_def)
    then have "resolveExportsObject conditions exports = Some t"
      using assms(2) by (rule spec_target_refined(1))
    with JObj None show ?thesis
      by (simp add: resolvePackageExports_def asString_def isObject_def getProp_def)
  next
    case (Some sub)
    with JObj assms have spec: "spec_resolveTarget conditions sub = Some t"
      by (simp add: spec_resolveExports_def)
    then have code: "resolveExportsObject conditions sub = Some t"
      using assms(2) by (rule spec_target_refined(1))
    from spec have "sub \<noteq> JUndefined" "sub \<noteq> JNull" by auto
    with JObj Some code show ?thesis
      by (cases sub)
        (simp_all add: resolvePackageExports_def asString_def isObject_def getProp_def)
  qed
qed (use assms in \<open>simp_all add: spec_resolveExports_def\<close>)

lemma spec_exports_truthy:
  assumes "spec_resolveExports conditions exports = Some t" and "t \<noteq> []"
  shows "truthy exports"
  using assms
  by (cases exports) (simp_all add: spec_resolveExports_def truthy_def)

lemma exportsStep_refined:
  assumes "spec_resolveExports exportConditions exports = Some target" and "target \<noteq> []"
  shows "exportsStep e request exports =
           find (isFile e) (spec_exportCandidates (posix_join e [basePath, request, target]))"
  using spec_exports_refined [OF assms] spec_exports_truthy [OF assms] assms(2)
  by (simp add: exportsStep_def spec_exportCandidates_def tryExtensions_find Let_def)

lemma leftPad_paths:
  "posix_join leftPadEnv [basePath, ''left-pad'', ''package.json'']
     = ''/snapshot/node_modules/left-pad/package.json''"
  "posix_join leftPadEnv [basePath, ''left-pad'', ''./cjs/index.js'']
     = ''/snapshot/node_modules/left-pad/cjs/index.js''"
  by (simp_all add: leftPadEnv_def archiveEnv_def basePath_def join_defs)

text \<open>
  C1, as the source has it. For a bare request for which the original found nothing and
  whose manifest parses: when following, from the \<^verbatim>\<open>exports\<close> value (a top-level \<^verbatim>\<open>"."\<close>
  unwrapped first), the first key of each object that is in the condition set
  \<^verbatim>\<open>[require, node, default]\<close> ends in a non-empty string \<open>target\<close>, the hook returns the
  first of \<open>candidate\<close>, \<open>candidate.js\<close>, \<open>candidate.json\<close>, \<open>candidate.node\<close> that is a
  file, \<open>candidate\<close> being the target joined to \<^verbatim>\<open>/snapshot/node_modules/<request>\<close>. The
  witness is scenario 2 of the specification, \<^verbatim>\<open>left-pad\<close>.
\<close>

theorem exports_resolution:
  assumes "\<not> truthy (originalResult captured args)"
    and "arg args 0 = JStr request"
    and "request \<noteq> []" and "\<not> startsWith request ''.''" and "\<not> isAbsolute e request"
    and "fs_readFileSync e (posix_join e [basePath, request, ''package.json'']) = Inr text"
    and "JSON_parse e text = Inr pkg"
    and "getProp pkg ''exports'' = Inr exports"
    and "spec_resolveExports exportConditions exports = Some target" and "target \<noteq> []"
    and "find (isFile e) (spec_exportCandidates (posix_join e [basePath, request, target])) = Some p"
  shows "nexeFindPath e captured args = Inr (JStr p)"
proof -
  have "exportsStep e request exports = Some p"
    using exportsStep_refined [OF assms(9,10), of e request] assms(11) by simp
  with assms(1-8) show ?thesis
    by (simp add: nexeFindPath_def Let_def)
qed

theorem exports_resolution_witness:
  "\<not> truthy (originalResult findsNothing [JStr ''left-pad''])
   \<and> arg [JStr ''left-pad''] 0 = JStr ''left-pad''
   \<and> \<not> startsWith ''left-pad'' ''.'' \<and> \<not> isAbsolute leftPadEnv ''left-pad''
   \<and> fs_readFileSync leftPadEnv ''/snapshot/node_modules/left-pad/package.json''
       = Inr leftPadText
   \<and> JSON_parse leftPadEnv leftPadText = Inr leftPadManifest
   \<and> spec_resolveExports exportConditions
        (JObj [(''.'', JObj [(''require'', JStr ''./cjs/index.js''),
                             (''default'', JStr ''./esm/index.js'')])])
       = Some ''./cjs/index.js''
   \<and> isFile leftPadEnv ''/snapshot/node_modules/left-pad/cjs/index.js''
   \<and> nexeFindPath leftPadEnv findsNothing [JStr ''left-pad'']
       = Inr (JStr ''/snapshot/node_modules/left-pad/cjs/index.js'')"
proof -
  let ?exports = "JObj [(''.'', JObj [(''require'', JStr ''./cjs/index.js''),
                                      (''default'', JStr ''./esm/index.js'')])]"
  have orig: "\<not> truthy (originalResult findsNothing [JStr ''left-pad''])"
    by (simp add: originalResult_def findsNothing_def truthy_def)
  have req: "arg [JStr ''left-pad''] 0 = JStr ''left-pad''"
    by (simp add: arg_def)
  have bare: "''left-pad'' \<noteq> []" "\<not> startsWith ''left-pad'' ''.''"
    "\<not> isAbsolute leftPadEnv ''left-pad''"
    by (simp_all add: startsWith_def leftPadEnv_def archiveEnv_def)
  have manifest: "fs_readFileSync leftPadEnv ''/snapshot/node_modules/left-pad/package.json''
      = Inr leftPadText"
    by (simp add: leftPadEnv_def archiveEnv_def)
  have parsed: "JSON_parse leftPadEnv leftPadText = Inr leftPadManifest"
    by (simp add: leftPadEnv_def archiveEnv_def)
  have field: "getProp leftPadManifest ''exports'' = Inr ?exports"
    by (simp add: getProp_def leftPadManifest_def)
  have target: "spec_resolveExports exportConditions ?exports = Some ''./cjs/index.js''"
    by (simp add: spec_resolveExports_def exportConditions_def)
  have nonempty: "''./cjs/index.js'' \<noteq> []"
    by simp
  have present: "isFile leftPadEnv ''/snapshot/node_modules/left-pad/cjs/index.js''"
    by (simp add: isFile_def leftPadEnv_def archiveEnv_def)
  then have found: "find (isFile leftPadEnv)
      (spec_exportCandidates (posix_join leftPadEnv [basePath, ''left-pad'', ''./cjs/index.js'']))
      = Some ''/snapshot/node_modules/left-pad/cjs/index.js''"
    by (simp add: leftPad_paths spec_exportCandidates_def)
  from exports_resolution [of findsNothing "[JStr ''left-pad'']" "''left-pad''" leftPadEnv
      leftPadText leftPadManifest ?exports "''./cjs/index.js''"
      "''/snapshot/node_modules/left-pad/cjs/index.js''",
      OF orig req bare manifest [folded leftPad_paths(1)] parsed field target nonempty found]
    orig req bare manifest parsed target present
  show ?thesis by simp
qed

text \<open>
  C1 as stated fails: the source does not stop at the first key that is in the condition
  set. For \<^verbatim>\<open>{"require":{"browser":"./b.js"},"default":"./d.js"}\<close> the first such key,
  \<^verbatim>\<open>require\<close>, holds an object with no key of the condition set, so following it selects
  nothing; the source goes on to \<^verbatim>\<open>default\<close> and the hook returns \<^verbatim>\<open>d.js\<close>.
\<close>

theorem exports_first_key_without_target:
  "spec_resolveExports exportConditions nestedExports = None
   \<and> resolvePackageExports nestedExports exportConditions = Some ''./d.js''
   \<and> nexeFindPath nestedEnv findsNothing [JStr ''pkg'']
       = Inr (JStr ''/snapshot/node_modules/pkg/d.js'')"
proof -
  have a: "spec_resolveExports exportConditions nestedExports = None"
    by (simp add: spec_resolveExports_def exportConditions_def nestedExports_def)
  have b: "resolvePackageExports nestedExports exportConditions = Some ''./d.js''"
    by (simp add: resolvePackageExports_def exportConditions_def nestedExports_def
        asString_def isObject_def getProp_def)
  have c: "nexeFindPath nestedEnv findsNothing [JStr ''pkg'']
       = Inr (JStr ''/snapshot/node_modules/pkg/d.js'')"
    by (simp add: nestedEnv_def nestedExports_def nestedText_def archiveEnv_def resolver_defs
        join_defs arg_def startsWith_def Let_def)
  from a b c show ?thesis by simp
qed

section \<open>The module resolver hook: the main field\<close>












text \<open>
  The normalisation of \<^verbatim>\<open>main\<close> on the cases the specification names, and scenario 3.
\<close>

lemma normalizeMain_examples:
  "normalizeMain JUndefined = ''index.js''"
  "normalizeMain (JNum 1) = ''index.js''"
  "normalizeMain (JStr ''./lib/axios'') = ''lib/axios''"
  "normalizeMain (JStr []) = ''index.js''"
  "normalizeMain (JStr ''./'') = ''index.js''"
  "normalizeMain (JStr ''.'') = ''index.js''"
  "normalizeMain (JStr ''lib/'') = ''lib/index.js''"
  by (simp_all add: normalizeMain_def startsWith_def endsWith_def slice_def)

lemma axios_main_with_extension:
  "nexeFindPath axiosEnv findsNothing [JStr ''axios'']
     = Inr (JStr ''/snapshot/node_modules/axios/lib/axios.js'')"
  by (simp add: axiosEnv_def axiosText_def archiveEnv_def resolver_defs join_defs arg_def
      startsWith_def endsWith_def slice_def Let_def)

section \<open>The module resolver hook: exceptions\<close>

text \<open>
  C7. The resolver should never throw. When \<^verbatim>\<open>package.json\<close> holds the JSON text
  \<^verbatim>\<open>null\<close>, \<^verbatim>\<open>JSON.parse\<close> returns \<^verbatim>\<open>null\<close> and reading \<^verbatim>\<open>pkg.exports\<close>, outside every
  \<^verbatim>\<open>try\<close>, throws a TypeError.
\<close>

theorem nexeFindPath_null_manifest:
  "nexeFindPath nullManifestEnv findsNothing [JStr ''pkg''] = Inl TypeError"
  by (simp add: nullManifestEnv_def archiveEnv_def resolver_defs join_defs arg_def startsWith_def)

text \<open>
  Apart from that, a request that is a string never makes the hook throw: it returns the
  truthy result of the original at once, and for a manifest that is not \<^verbatim>\<open>null\<close> it
  returns a value.
\<close>

lemma nexeFindPath_original_truthy:
  "captured args = Inr r \<Longrightarrow> truthy r \<Longrightarrow> nexeFindPath e captured args = Inr r"
  by (simp add: nexeFindPath_def originalResult_def Let_def)

lemma getProp_defined:
  "pkg \<noteq> JNull \<Longrightarrow> pkg \<noteq> JUndefined \<Longrightarrow> \<exists>v. getProp pkg k = Inr v"
  by (cases pkg) (simp_all add: getProp_def split: option.splits)

lemma nexeFindPath_returns:
  assumes "arg args 0 = JStr request"
    and "\<And>manifest. JSON_parse e manifest \<noteq> Inr JNull"
    and "\<And>manifest. JSON_parse e manifest \<noteq> Inr JUndefined"
  shows "\<exists>v. nexeFindPath e captured args = Inr v"
proof (cases "fs_readFileSync e (posix_join e [basePath, request, ''package.json''])")
  case (Inl err)
  with assms(1) show ?thesis
    by (simp add: nexeFindPath_def Let_def)
next
  case (Inr content)
  show ?thesis
  proof (cases "JSON_parse e content")
    case (Inl err)
    with Inr assms(1) show ?thesis
      by (simp add: nexeFindPath_def Let_def)
  next
    case parsed: (Inr pkg)
    with assms(2,3) [of content] have "pkg \<noteq> JNull" "pkg \<noteq> JUndefined"
      by auto
    then obtain exports pkgMain
      where "getProp pkg ''exports'' = Inr exports" "getProp pkg ''main'' = Inr pkgMain"
      using getProp_defined by blast
    with Inr parsed assms(1) show ?thesis
      by (simp add: nexeFindPath_def Let_def split: option.splits)
  qed
qed

end
